theory Spec2Isabelle
  imports Complex_Main "HOL-Library.AList"
begin

section \<open>Python values\<close>

text \<open>
  A Python \<open>str\<close> is a sequence of Unicode code points: \<open>len\<close> counts code points
  and \<open>s[:n]\<close> keeps the first \<open>n\<close> of them. A code point is a natural number here;
  \<open>lit\<close> embeds the ASCII literals of the source.
\<close>

type_synonym pystr = "nat list"

definition lit :: "string \<Rightarrow> pystr" where
  "lit s = map of_char s"

text \<open>
  The values that travel between the handlers and the pipeline are dynamically typed.
  They are modelled as the JSON-like universe the handlers build and return: \<open>None\<close>,
  booleans, integers, floats (only their test against zero is ever observed), strings,
  lists and dictionaries with string keys. A dictionary keeps its insertion order, so it
  is an association list; \<open>map_of\<close> reads it and \<open>AList.update\<close> writes it the way
  \<open>d[k] = v\<close> does (in place when the key is there, at the end otherwise).

  A dictionary is an object: the same dictionary can be reached from several places (twice
  in one list, from two result sets, from two sessions), and an assignment to one of its
  keys is seen from all of them. So a dictionary carries its identity. Two dictionaries
  with the same identity are the same object, wherever they stand; \<open>replace_object\<close>
  below is the assignment in place. \<open>Obj n\<close> is an object that came from a collaborator,
  \<open>Temp\<close> one that a handler builds for its answer and never stores. Lists, strings and
  numbers are never changed in place by this program, so their identity is not recorded,
  and an object graph is taken to have no cycle.
\<close>

datatype ident = Obj nat | Temp

datatype pyval =
    PNone
  | PBool bool
  | PInt int
  | PFloat real
  | PStr pystr
  | PList "pyval list"
  | PDict ident "(pystr \<times> pyval) list"

text \<open>Truthiness: \<open>not v\<close> is \<open>\<not> truthy v\<close>.\<close>

fun truthy :: "pyval \<Rightarrow> bool" where
  "truthy PNone = False"
| "truthy (PBool b) = b"
| "truthy (PInt i) = (i \<noteq> 0)"
| "truthy (PFloat x) = (x \<noteq> 0)"
| "truthy (PStr s) = (s \<noteq> [])"
| "truthy (PList xs) = (xs \<noteq> [])"
| "truthy (PDict a d) = (d \<noteq> [])"

section \<open>Exceptions\<close>

text \<open>
  \<open>fault\<close> is every exception other than \<open>HTTPException\<close>: the lookup and type
  errors the handlers themselves can run into, and whatever a collaborator raises. A
  fault keeps the offending value rather than the text of its message; \<open>StrOf f\<close> stands
  for \<open>str(e)\<close>, the detail of the generic 500 answer.
\<close>

datatype fault =
    KeyError pyval
  | AttributeError pyval string
  | TypeError pyval
  | IndexError
  | RuntimeFault pystr

datatype detail = Detail string | StrOf fault

datatype exn = HTTPException nat detail | Fault fault

fun bindE :: "'e + 'a \<Rightarrow> ('a \<Rightarrow> 'e + 'b) \<Rightarrow> 'e + 'b" where
  "bindE (Inl e) f = Inl e"
| "bindE (Inr x) f = f x"

definition abstract_too_short :: detail where
  "abstract_too_short = Detail ''Abstract too short. Please provide at least 50 characters.''"

definition invalid_mode :: detail where
  "invalid_mode = Detail ''Invalid mode. Must be 'arxiv' or 'local'.''"

definition search_failed :: detail where
  "search_failed = Detail ''Search failed. Please try again.''"

definition session_not_found :: detail where
  "session_not_found = Detail ''Session not found. Please perform a search first.''"

definition invalid_paper_index :: detail where
  "invalid_paper_index = Detail ''Invalid paper index. Must be between 1 and 5.''"

definition paper_not_found :: detail where
  "paper_not_found = Detail ''Paper not found.''"

definition summary_failed :: detail where
  "summary_failed = Detail ''Summary generation failed.''"

section \<open>The operations on values that the handlers use\<close>

text \<open>\<open>v.get(k, default)\<close>: only a dictionary has the method.\<close>

fun py_get :: "pyval \<Rightarrow> pystr \<Rightarrow> pyval \<Rightarrow> fault + pyval" where
  "py_get (PDict a d) k dflt = Inr (case map_of d k of None \<Rightarrow> dflt | Some v \<Rightarrow> v)"
| "py_get v k dflt = Inl (AttributeError v ''get'')"

text \<open>\<open>k in v\<close> for a string \<open>k\<close>: a key of a dictionary, an element of a list, a substring of a string.\<close>

fun is_substring :: "pystr \<Rightarrow> pystr \<Rightarrow> bool" where
  "is_substring k [] = (k = [])"
| "is_substring k (c # s) = (take (length k) (c # s) = k \<or> is_substring k s)"

fun py_contains :: "pyval \<Rightarrow> pystr \<Rightarrow> fault + bool" where
  "py_contains (PDict a d) k = Inr (map_of d k \<noteq> None)"
| "py_contains (PList xs) k = Inr (PStr k \<in> set xs)"
| "py_contains (PStr s) k = Inr (is_substring k s)"
| "py_contains v k = Inl (TypeError v)"

text \<open>\<open>v[:n]\<close> for a literal \<open>n \<ge> 0\<close>: lists and strings can be sliced.\<close>

fun py_slice_to :: "nat \<Rightarrow> pyval \<Rightarrow> fault + pyval" where
  "py_slice_to n (PList xs) = Inr (PList (take n xs))"
| "py_slice_to n (PStr s) = Inr (PStr (take n s))"
| "py_slice_to n v = Inl (TypeError v)"

text \<open>\<open>for x in v\<close>: a string yields its one-character strings, a dictionary its keys.\<close>

fun py_iter :: "pyval \<Rightarrow> fault + pyval list" where
  "py_iter (PList xs) = Inr xs"
| "py_iter (PStr s) = Inr (map (\<lambda>c. PStr [c]) s)"
| "py_iter (PDict a d) = Inr (map (\<lambda>(k, v). PStr k) d)"
| "py_iter v = Inl (TypeError v)"

text \<open>\<open>v + "..."\<close>: only a string can be concatenated with a string.\<close>

fun py_concat_str :: "pyval \<Rightarrow> pystr \<Rightarrow> fault + pyval" where
  "py_concat_str (PStr s) t = Inr (PStr (s @ t))"
| "py_concat_str v t = Inl (TypeError v)"

text \<open>\<open>len(v)\<close>.\<close>

fun py_len :: "pyval \<Rightarrow> fault + nat" where
  "py_len (PList xs) = Inr (length xs)"
| "py_len (PStr s) = Inr (length s)"
| "py_len (PDict a d) = Inr (length d)"
| "py_len v = Inl (TypeError v)"

text \<open>
  \<open>v[i]\<close> for an integer \<open>i\<close>: a negative index counts from the end, an index out of
  range raises; a dictionary (whose keys are strings) has no integer key.
\<close>

definition py_position :: "nat \<Rightarrow> int \<Rightarrow> nat option" where
  "py_position len i =
     (if 0 \<le> i \<and> i < int len then Some (nat i)
      else if i < 0 \<and> - int len \<le> i then Some (nat (int len + i))
      else None)"

fun py_index :: "pyval \<Rightarrow> int \<Rightarrow> fault + pyval" where
  "py_index (PList xs) i =
     (case py_position (length xs) i of
        Some k \<Rightarrow> Inr (xs ! k)
      | None \<Rightarrow> Inl IndexError)"
| "py_index (PStr s) i =
     (case py_position (length s) i of
        Some k \<Rightarrow> Inr (PStr [s ! k])
      | None \<Rightarrow> Inl IndexError)"
| "py_index (PDict a d) i = Inl (KeyError (PInt i))"
| "py_index v i = Inl (TypeError v)"

text \<open>
  \<open>v[k] = x\<close> for a string key \<open>k\<close>: only a dictionary accepts it. What comes back is
  the same object with its new content.
\<close>

fun py_setitem :: "pyval \<Rightarrow> pystr \<Rightarrow> pyval \<Rightarrow> fault + pyval" where
  "py_setitem (PDict a d) k x = Inr (PDict a (AList.update k x d))"
| "py_setitem v k x = Inl (TypeError v)"

text \<open>
  The change of an object in place, as it shows in a value that may reach the object:
  every dictionary with the identity \<open>a\<close> is now \<open>new\<close>.
\<close>

fun replace_object :: "ident \<Rightarrow> pyval \<Rightarrow> pyval \<Rightarrow> pyval" where
  "replace_object a new (PList xs) = PList (map (replace_object a new) xs)"
| "replace_object a new (PDict b d) =
     (if b = a then new else PDict b (map (\<lambda>(k, v). (k, replace_object a new v)) d))"
| "replace_object a new v = v"

text \<open>\<open>changed_in_place obj v\<close>: the value \<open>v\<close> after the dictionary \<open>obj\<close> got a new content.\<close>

fun changed_in_place :: "pyval \<Rightarrow> pyval \<Rightarrow> pyval" where
  "changed_in_place (PDict a d) v = replace_object a (PDict a d) v"
| "changed_in_place obj v = v"


section \<open>Requests, collaborators and the process state\<close>

record SearchRequest =
  mode :: pystr
  abstract :: pystr

record SummaryRequest =
  mode :: pystr
  paper_index :: int
  session_id :: pystr

text \<open>
  An orchestrator object: the mode it was constructed for and its identity (the length
  of the trace when it was constructed, so no two objects share one).
\<close>

datatype handle = Handle pystr nat

fun handle_mode :: "handle \<Rightarrow> pystr" where
  "handle_mode (Handle m n) = m"

text \<open>
  \<open>datetime.now()\<close>, and \<open>strftime('%Y%m%d_%H%M%S')\<close> on it: every field as a
  zero-padded decimal number, the year with four digits (which is what \<open>%Y\<close> gives for
  the years from 1000 to 9999, see \<open>valid_datetime\<close> below).
\<close>

record datetime =
  year :: nat
  month :: nat
  day :: nat
  hour :: nat
  minute :: nat
  second :: nat

definition digit :: "nat \<Rightarrow> nat" where
  "digit d = 48 + d mod 10"

definition pad2 :: "nat \<Rightarrow> pystr" where
  "pad2 n = [digit (n div 10), digit n]"

definition pad4 :: "nat \<Rightarrow> pystr" where
  "pad4 n = [digit (n div 1000), digit (n div 100), digit (n div 10), digit n]"

definition strftime :: "datetime \<Rightarrow> pystr" where
  "strftime t = pad4 (year t) @ pad2 (month t) @ pad2 (day t) @ lit ''_''
                @ pad2 (hour t) @ pad2 (minute t) @ pad2 (second t)"

text \<open>
  The collaborators are not part of this program: \<open>MockPipelineOrchestrator\<close> and its
  two methods are taken as parameters of each request, together with the clock. The
  constructor either completes or raises; a method returns a value or raises. They are
  assumed not to touch \<open>orchestrators\<close> or \<open>sessions\<close> and not to change a dictionary
  they have handed out. What they return may hold a dictionary more than once, or one
  that an earlier result holds already: the identities in the value say so. The handlers
  are coroutines without a single \<open>await\<close>, so each request is served from start to end
  before the next one begins.
\<close>

record env =
  MockPipelineOrchestrator :: "pystr \<Rightarrow> exn option"
  run_pipeline :: "handle \<Rightarrow> pystr \<Rightarrow> exn + pyval"
  orch_generate_summary :: "handle \<Rightarrow> pyval \<Rightarrow> exn + pyval"
  now :: datetime

text \<open>What the collaborators have been asked to do, in order.\<close>

datatype event =
    Constructed handle
  | RanPipeline handle pystr
  | GeneratedSummary handle pyval

text \<open>
  The two module-level dictionaries, and the trace of the calls made to the
  collaborators.
\<close>

record state =
  orchestrators :: "pystr \<rightharpoonup> handle option"
  sessions :: "pystr \<rightharpoonup> pyval"
  trace :: "event list"

definition initial_state :: state where
  "initial_state =
     \<lparr>orchestrators = [lit ''arxiv'' \<mapsto> None, lit ''local'' \<mapsto> None],
      sessions = Map.empty,
      trace = []\<rparr>"

section \<open>The pipeline registry\<close>

definition get_orchestrator :: "env \<Rightarrow> state \<Rightarrow> pystr \<Rightarrow> (exn + handle) \<times> state" where
  "get_orchestrator e st m =
     (case orchestrators st m of
        None \<Rightarrow> (Inl (Fault (KeyError (PStr m))), st)
      | Some (Some h) \<Rightarrow> (Inr h, st)
      | Some None \<Rightarrow>
          (case MockPipelineOrchestrator e m of
             Some x \<Rightarrow> (Inl x, st)
           | None \<Rightarrow>
               (let h = Handle m (length (trace st))
                in (Inr h, st\<lparr>orchestrators := (orchestrators st)(m \<mapsto> Some h),
                               trace := trace st @ [Constructed h]\<rparr>))))"

section \<open>Search\<close>

text \<open>One entry of \<open>response['top_5_papers']\<close>.\<close>

definition format_paper :: "pyval \<Rightarrow> fault + pyval" where
  "format_paper paper =
     bindE (py_get paper (lit ''rank'') PNone) (\<lambda>rank.
     bindE (py_get paper (lit ''title'') PNone) (\<lambda>title.
     bindE (py_get paper (lit ''authors'') (PList [])) (\<lambda>authors.
     bindE (py_get paper (lit ''year'') PNone) (\<lambda>yr.
     bindE (py_get paper (lit ''arxiv_id'') PNone) (\<lambda>arxiv_id.
     bindE (py_get paper (lit ''url'') (PStr [])) (\<lambda>url.
     bindE (py_get paper (lit ''similarity'') PNone) (\<lambda>similarity.
     bindE (py_get paper (lit ''rerank_score'') PNone) (\<lambda>rerank_score.
     bindE (py_get paper (lit ''abstract'') (PStr [])) (\<lambda>a.
     bindE (py_slice_to 300 a) (\<lambda>a300.
     bindE (py_concat_str a300 (lit ''...'')) (\<lambda>abstr.
       Inr (PDict Temp
         [(lit ''rank'', rank),
          (lit ''title'', title),
          (lit ''authors'', authors),
          (lit ''year'', yr),
          (lit ''arxiv_id'', arxiv_id),
          (lit ''url'', url),
          (lit ''similarity'', similarity),
          (lit ''rerank_score'', rerank_score),
          (lit ''abstract'', abstr)]))))))))))))"

text \<open>The loop over the papers: it stops at the first paper that raises.\<close>

fun format_papers :: "pyval list \<Rightarrow> fault + pyval list" where
  "format_papers [] = Inr []"
| "format_papers (paper # rest) =
     bindE (format_paper paper) (\<lambda>entry.
     bindE (format_papers rest) (\<lambda>entries. Inr (entry # entries)))"

text \<open>The papers the loop goes through: \<open>results.get('top_5_papers', [])[:5]\<close>.\<close>

definition first_five_papers :: "pyval \<Rightarrow> fault + pyval list" where
  "first_five_papers results =
     bindE (py_get results (lit ''top_5_papers'') (PList [])) (\<lambda>papers.
     bindE (py_slice_to 5 papers) py_iter)"

definition search_response :: "pystr \<Rightarrow> SearchRequest \<Rightarrow> pyval \<Rightarrow> fault + pyval" where
  "search_response sid request results =
     bindE (py_get results (lit ''query_timestamp'') PNone) (\<lambda>timestamp.
     bindE (py_get results (lit ''keywords'') (PList [])) (\<lambda>keywords.
     bindE (py_get results (lit ''metrics'') (PDict Temp [])) (\<lambda>metrics.
     bindE (first_five_papers results) (\<lambda>ps.
     bindE (format_papers ps) (\<lambda>entries.
     bindE (py_contains results (lit ''comparative_analysis'')) (\<lambda>has_analysis.
     bindE (py_get results (lit ''comparative_analysis'') PNone) (\<lambda>analysis.
       Inr (PDict Temp
         ([(lit ''session_id'', PStr sid),
           (lit ''mode'', PStr (SearchRequest.mode request)),
           (lit ''query_abstract'', PStr (abstract request)),
           (lit ''timestamp'', timestamp),
           (lit ''keywords'', keywords),
           (lit ''metrics'', metrics),
           (lit ''top_5_papers'', PList entries)]
          @ (if has_analysis then [(lit ''comparative_analysis'', analysis)] else []))))))))))"

text \<open>The body of the \<open>try\<close> block of \<open>search_papers\<close>.\<close>

definition search_papers_try :: "env \<Rightarrow> state \<Rightarrow> SearchRequest \<Rightarrow> (exn + pyval) \<times> state" where
  "search_papers_try e st request =
     (if length (abstract request) < 50 then
        (Inl (HTTPException 400 abstract_too_short), st)
      else if SearchRequest.mode request \<notin> set [lit ''arxiv'', lit ''local''] then
        (Inl (HTTPException 400 invalid_mode), st)
      else
        (case get_orchestrator e st (SearchRequest.mode request) of
           (Inl x, st1) \<Rightarrow> (Inl x, st1)
         | (Inr orchestrator, st1) \<Rightarrow>
             (let st2 = st1\<lparr>trace := trace st1 @ [RanPipeline orchestrator (abstract request)]\<rparr>
              in case run_pipeline e orchestrator (abstract request) of
                   Inl x \<Rightarrow> (Inl x, st2)
                 | Inr results \<Rightarrow>
                     if \<not> truthy results then
                       (Inl (HTTPException 500 search_failed), st2)
                     else
                       (let sid = SearchRequest.mode request @ lit ''_'' @ strftime (now e);
                            st3 = st2\<lparr>sessions := (sessions st2)(sid \<mapsto> results)\<rparr>
                        in (case search_response sid request results of
                              Inl f \<Rightarrow> Inl (Fault f)
                            | Inr response \<Rightarrow> Inr response, st3)))))"

text \<open>
  The \<open>except\<close> clauses: an \<open>HTTPException\<close> is raised again as it is, every other
  exception becomes a 500 whose detail is \<open>str(e)\<close>.
\<close>

fun boundary :: "exn \<Rightarrow> nat \<times> detail" where
  "boundary (HTTPException status d) = (status, d)"
| "boundary (Fault f) = (500, StrOf f)"

fun at_boundary :: "(exn + pyval) \<times> state \<Rightarrow> (nat \<times> detail + pyval) \<times> state" where
  "at_boundary (Inl x, st) = (Inl (boundary x), st)"
| "at_boundary (Inr r, st) = (Inr r, st)"

definition search_papers :: "env \<Rightarrow> state \<Rightarrow> SearchRequest \<Rightarrow> (nat \<times> detail + pyval) \<times> state" where
  "search_papers e st request = at_boundary (search_papers_try e st request)"

section \<open>Summary\<close>

text \<open>
  \<open>paper['summary'] = summary\<close> changes the paper in place. The paper was read from the
  list found in \<open>results\<close>, and \<open>results\<close> from \<open>sessions\<close>, so the change shows in
  \<open>results\<close> and in every other session that reaches the same paper;
  \<open>sessions[request.session_id] = results\<close> then stores the object that is already there.
\<close>

definition summary_response :: "pyval \<Rightarrow> pyval \<Rightarrow> fault + pyval" where
  "summary_response paper summary =
     bindE (py_get paper (lit ''rank'') PNone) (\<lambda>rank.
     bindE (py_get paper (lit ''title'') PNone) (\<lambda>title.
     bindE (py_get paper (lit ''authors'') (PList [])) (\<lambda>authors.
     bindE (py_get paper (lit ''year'') PNone) (\<lambda>yr.
     bindE (py_get paper (lit ''arxiv_id'') PNone) (\<lambda>arxiv_id.
     bindE (py_get summary (lit ''research_objective'') (PStr [])) (\<lambda>research_objective.
     bindE (py_get summary (lit ''methodology_summary'') (PStr [])) (\<lambda>methodology_summary.
     bindE (py_get summary (lit ''key_findings'') (PList [])) (\<lambda>key_findings.
     bindE (py_get summary (lit ''innovation_and_contribution'') (PStr [])) (\<lambda>innovation.
     bindE (py_get summary (lit ''technical_details'') (PStr [])) (\<lambda>technical_details.
     bindE (py_get summary (lit ''limitations_and_future_work'') (PStr [])) (\<lambda>limitations.
       Inr (PDict Temp
         [(lit ''paper'', PDict Temp
             [(lit ''rank'', rank),
              (lit ''title'', title),
              (lit ''authors'', authors),
              (lit ''year'', yr),
              (lit ''arxiv_id'', arxiv_id)]),
          (lit ''summary'', PDict Temp
             [(lit ''research_objective'', research_objective),
              (lit ''methodology_summary'', methodology_summary),
              (lit ''key_findings'', key_findings),
              (lit ''innovation_and_contribution'', innovation),
              (lit ''technical_details'', technical_details),
              (lit ''limitations_and_future_work'', limitations)])]))))))))))))"

text \<open>
  The part of the \<open>try\<close> block of \<open>generate_summary\<close> that follows the three checks:
  from \<open>paper = papers[request.paper_index - 1]\<close> on.
\<close>

definition summarize_paper ::
  "env \<Rightarrow> state \<Rightarrow> SummaryRequest \<Rightarrow> pyval \<Rightarrow> pyval \<Rightarrow> (exn + pyval) \<times> state" where
  "summarize_paper e st request results papers =
     (case py_index papers (paper_index request - 1) of
        Inl f \<Rightarrow> (Inl (Fault f), st)
      | Inr paper \<Rightarrow>
          (case get_orchestrator e st (SummaryRequest.mode request) of
             (Inl x, st1) \<Rightarrow> (Inl x, st1)
           | (Inr orchestrator, st1) \<Rightarrow>
               (let st2 = st1\<lparr>trace := trace st1 @ [GeneratedSummary orchestrator paper]\<rparr>
                in case orch_generate_summary e orchestrator paper of
                     Inl x \<Rightarrow> (Inl x, st2)
                   | Inr summary \<Rightarrow>
                       if \<not> truthy summary then
                         (Inl (HTTPException 500 summary_failed), st2)
                       else
                         (case py_setitem paper (lit ''summary'') summary of
                            Inl f \<Rightarrow> (Inl (Fault f), st2)
                          | Inr paper' \<Rightarrow>
                              (let written = map_option (changed_in_place paper') \<circ> sessions st2;
                                   results' = changed_in_place paper' results;
                                   st3 = st2\<lparr>sessions := written(session_id request \<mapsto> results')\<rparr>
                               in (case summary_response paper' summary of
                                     Inl f \<Rightarrow> Inl (Fault f)
                                   | Inr response \<Rightarrow> Inr response, st3))))))"

definition generate_summary_try :: "env \<Rightarrow> state \<Rightarrow> SummaryRequest \<Rightarrow> (exn + pyval) \<times> state" where
  "generate_summary_try e st request =
     (case sessions st (session_id request) of
        None \<Rightarrow> (Inl (HTTPException 404 session_not_found), st)
      | Some results \<Rightarrow>
          if paper_index request < 1 \<or> paper_index request > 5 then
            (Inl (HTTPException 400 invalid_paper_index), st)
          else
            (case py_get results (lit ''top_5_papers'') (PList []) of
               Inl f \<Rightarrow> (Inl (Fault f), st)
             | Inr papers \<Rightarrow>
                 (case py_len papers of
                    Inl f \<Rightarrow> (Inl (Fault f), st)
                  | Inr n \<Rightarrow>
                      if paper_index request > int n then
                        (Inl (HTTPException 404 paper_not_found), st)
                      else summarize_paper e st request results papers)))"

definition generate_summary :: "env \<Rightarrow> state \<Rightarrow> SummaryRequest \<Rightarrow> (nat \<times> detail + pyval) \<times> state" where
  "generate_summary e st request = at_boundary (generate_summary_try e st request)"

section \<open>The states the process can be in\<close>

text \<open>
  The process starts in \<open>initial_state\<close> and moves by serving requests; each request
  comes with its own collaborator behaviour and clock. A bare call of
  \<open>get_orchestrator\<close> is a step as well, so that what holds of every reachable state
  holds for every order of calls to the registry.
\<close>

inductive steps :: "state \<Rightarrow> state \<Rightarrow> bool" where
  refl: "steps st st"
| registry: "steps st st1 \<Longrightarrow> steps st (snd (get_orchestrator e st1 m))"
| search: "steps st st1 \<Longrightarrow> steps st (snd (search_papers e st1 request))"
| summary: "steps st st1 \<Longrightarrow> steps st (snd (generate_summary e st1 sreq))"

definition reachable :: "state \<Rightarrow> bool" where
  "reachable st = steps initial_state st"

text \<open>The orchestrator objects constructed so far, and those constructed for one mode.\<close>

fun constructed :: "event list \<Rightarrow> handle list" where
  "constructed [] = []"
| "constructed (Constructed h # evs) = h # constructed evs"
| "constructed (RanPipeline h a # evs) = constructed evs"
| "constructed (GeneratedSummary h p # evs) = constructed evs"

definition handles_for :: "pystr \<Rightarrow> event list \<Rightarrow> handle list" where
  "handles_for m evs = filter (\<lambda>h. handle_mode h = m) (constructed evs)"

text \<open>The object stored for a mode, if there is one.\<close>

definition stored :: "state \<Rightarrow> pystr \<Rightarrow> handle list" where
  "stored st m = (case orchestrators st m of Some (Some h) \<Rightarrow> [h] | _ \<Rightarrow> [])"

text \<open>
  The registry and the trace agree: the dictionary has the two keys it starts with and
  no other, and the objects constructed for a mode are exactly the one that is stored
  for it (none while its entry is still \<open>None\<close>).
\<close>

definition registry_ok :: "state \<Rightarrow> bool" where
  "registry_ok st =
     (dom (orchestrators st) = {lit ''arxiv'', lit ''local''} \<and>
      (\<forall>m. handles_for m (trace st) = stored st m))"

text \<open>What of a state the registry invariant looks at.\<close>

definition registry_view :: "state \<Rightarrow> (pystr \<rightharpoonup> handle option) \<times> handle list" where
  "registry_view st = (orchestrators st, constructed (trace st))"

section \<open>The shape of a session identifier\<close>

definition is_digit :: "nat \<Rightarrow> bool" where
  "is_digit c = (48 \<le> c \<and> c \<le> 57)"

text \<open>\<open>YYYYMMDD_HHMMSS\<close>: eight digits, an underscore, six digits.\<close>

definition timestamp_format :: "pystr \<Rightarrow> bool" where
  "timestamp_format s =
     (length s = 15 \<and> list_all is_digit (take 8 s) \<and> s ! 8 = of_char CHR ''_''
      \<and> list_all is_digit (drop 9 s))"

text \<open>The number a string of decimal digits denotes.\<close>

definition decimal :: "pystr \<Rightarrow> nat" where
  "decimal s = foldl (\<lambda>a c. 10 * a + (c - 48)) 0 s"

text \<open>A date and time as \<open>datetime.now()\<close> returns them, with a four-digit year.\<close>

definition valid_datetime :: "datetime \<Rightarrow> bool" where
  "valid_datetime t =
     (1000 \<le> year t \<and> year t \<le> 9999 \<and> 1 \<le> month t \<and> month t \<le> 12 \<and> 1 \<le> day t \<and> day t \<le> 31
      \<and> hour t \<le> 23 \<and> minute t \<le> 59 \<and> second t \<le> 59)"

text \<open>Reading the six fields back from a string of the shape \<open>YYYYMMDD_HHMMSS\<close>.\<close>

definition parse_timestamp :: "pystr \<Rightarrow> datetime" where
  "parse_timestamp s =
     \<lparr>year = decimal (take 4 s),
      month = decimal (take 2 (drop 4 s)),
      day = decimal (take 2 (drop 6 s)),
      hour = decimal (take 2 (drop 9 s)),
      minute = decimal (take 2 (drop 11 s)),
      second = decimal (take 2 (drop 13 s))\<rparr>"

section \<open>A concrete run\<close>

text \<open>
  A pipeline that finds two papers (the second without an abstract) and a summarizer
  that fills one field, at 14:05:07 on 9 March 2024.
\<close>

definition example_paper1 :: pyval where
  "example_paper1 =
     PDict (Obj 1) [(lit ''rank'', PInt 1), (lit ''title'', PStr (lit ''A'')),
            (lit ''abstract'', PStr (lit ''short text''))]"

definition example_paper2 :: pyval where
  "example_paper2 = PDict (Obj 2) [(lit ''rank'', PInt 2), (lit ''title'', PStr (lit ''B''))]"

definition example_results :: pyval where
  "example_results = PDict (Obj 0)
     [(lit ''query_timestamp'', PStr (lit ''2024-03-09T14:05:07'')),
      (lit ''keywords'', PList [PStr (lit ''graphs'')]),
      (lit ''top_5_papers'', PList [example_paper1, example_paper2])]"

definition example_summary :: pyval where
  "example_summary = PDict (Obj 3) [(lit ''research_objective'', PStr (lit ''goal''))]"

definition example_env :: env where
  "example_env =
     \<lparr>MockPipelineOrchestrator = (\<lambda>m. None),
      run_pipeline = (\<lambda>h a. Inr example_results),
      orch_generate_summary = (\<lambda>h p. Inr example_summary),
      now = \<lparr>year = 2024, month = 3, day = 9, hour = 14, minute = 5, second = 7\<rparr>\<rparr>"

definition example_request :: SearchRequest where
  "example_request = \<lparr>SearchRequest.mode = lit ''arxiv'', abstract = replicate 50 97\<rparr>"

text \<open>The state after \<open>example_request\<close> has been served from the initial state.\<close>

definition example_state :: state where
  "example_state =
     \<lparr>orchestrators = [lit ''local'' \<mapsto> None, lit ''arxiv'' \<mapsto> Some (Handle (lit ''arxiv'') 0)],
      sessions = [lit ''arxiv_20240309_140507'' \<mapsto> example_results],
      trace = [Constructed (Handle (lit ''arxiv'') 0),
               RanPipeline (Handle (lit ''arxiv'') 0) (replicate 50 97)]\<rparr>"

text \<open>What \<open>example_request\<close> is answered.\<close>

definition example_entry1 :: pyval where
  "example_entry1 = PDict Temp
     [(lit ''rank'', PInt 1), (lit ''title'', PStr (lit ''A'')), (lit ''authors'', PList []),
      (lit ''year'', PNone), (lit ''arxiv_id'', PNone), (lit ''url'', PStr []),
      (lit ''similarity'', PNone), (lit ''rerank_score'', PNone),
      (lit ''abstract'', PStr (lit ''short text...''))]"

definition example_entry2 :: pyval where
  "example_entry2 = PDict Temp
     [(lit ''rank'', PInt 2), (lit ''title'', PStr (lit ''B'')), (lit ''authors'', PList []),
      (lit ''year'', PNone), (lit ''arxiv_id'', PNone), (lit ''url'', PStr []),
      (lit ''similarity'', PNone), (lit ''rerank_score'', PNone),
      (lit ''abstract'', PStr (lit ''...''))]"

definition example_response :: pyval where
  "example_response = PDict Temp
     [(lit ''session_id'', PStr (lit ''arxiv_20240309_140507'')),
      (lit ''mode'', PStr (lit ''arxiv'')),
      (lit ''query_abstract'', PStr (replicate 50 97)),
      (lit ''timestamp'', PStr (lit ''2024-03-09T14:05:07'')),
      (lit ''keywords'', PList [PStr (lit ''graphs'')]),
      (lit ''metrics'', PDict Temp []),
      (lit ''top_5_papers'', PList [example_entry1, example_entry2])]"

text \<open>
  The same request served a second time within the same second: the state afterwards.
\<close>

definition example_state_again :: state where
  "example_state_again =
     example_state\<lparr>trace := trace example_state
                     @ [RanPipeline (Handle (lit ''arxiv'') 0) (replicate 50 97)]\<rparr>"










text \<open>
  A pipeline that returns one paper twice: the list of its result holds the same
  dictionary at both positions. The state after \<open>example_request\<close> has been served by it
  from the initial state, a summary request for the first position that names the mode
  \<open>local\<close>, and the state after that request.
\<close>

definition alias_results :: pyval where
  "alias_results = PDict (Obj 0) [(lit ''top_5_papers'', PList [example_paper1, example_paper1])]"

definition alias_env :: env where
  "alias_env = example_env\<lparr>run_pipeline := \<lambda>h a. Inr alias_results\<rparr>"

definition alias_state :: state where
  "alias_state =
     \<lparr>orchestrators = [lit ''local'' \<mapsto> None, lit ''arxiv'' \<mapsto> Some (Handle (lit ''arxiv'') 0)],
      sessions = [lit ''arxiv_20240309_140507'' \<mapsto> alias_results],
      trace = [Constructed (Handle (lit ''arxiv'') 0),
               RanPipeline (Handle (lit ''arxiv'') 0) (replicate 50 97)]\<rparr>"



text \<open>
  A pipeline whose first paper has an abstract of 301 code points, followed by the two
  papers above.
\<close>

definition long_paper :: pyval where
  "long_paper = PDict (Obj 5) [(lit ''rank'', PInt 1), (lit ''abstract'', PStr (replicate 301 120))]"

definition long_results :: pyval where
  "long_results =
     PDict (Obj 6) [(lit ''top_5_papers'', PList [long_paper, example_paper1, example_paper2])]"

definition long_env :: env where
  "long_env = example_env\<lparr>run_pipeline := \<lambda>h a. Inr long_results\<rparr>"

section \<open>Literals and the concrete run\<close>

lemma lit_eq_iff [simp]: "lit a = lit b \<longleftrightarrow> a = b"
  by (simp add: lit_def inj_map_eq_map [OF inj_of_char])

lemma length_lit [simp]: "length (lit s) = length s"
  by (simp add: lit_def)

lemma lit_append: "lit a @ lit b = lit (a @ b)"
  by (simp add: lit_def)

lemma strftime_example:
  "strftime \<lparr>year = 2024, month = 3, day = 9, hour = 14, minute = 5, second = 7\<rparr>
     = lit ''20240309_140507''"
  by (simp add: strftime_def pad2_def pad4_def digit_def lit_def)

lemma snd_at_boundary [simp]: "snd (at_boundary p) = snd p"
  by (cases p rule: at_boundary.cases) simp_all

lemma example_search:
  "snd (search_papers example_env initial_state example_request) = example_state"
  by (simp add: search_papers_def search_papers_try_def get_orchestrator_def initial_state_def
      example_env_def example_request_def example_state_def example_results_def
      example_paper1_def example_paper2_def
      strftime_example lit_append Let_def)

lemma reachable_example_state: "reachable example_state"
  unfolding reachable_def
  using steps.search [OF steps.refl, of initial_state example_env example_request]
  by (simp only: example_search)

section \<open>The registry invariant\<close>

lemma constructed_append [simp]: "constructed (a @ b) = constructed a @ constructed b"
  by (induction a rule: constructed.induct) simp_all

lemma get_orchestrator_sessions [simp]:
  "sessions (snd (get_orchestrator e st m)) = sessions st"
  by (simp add: get_orchestrator_def Let_def split: option.splits)

lemma get_orchestrator_keeps:
  "orchestrators st m = Some (Some h) \<Longrightarrow>
   orchestrators (snd (get_orchestrator e st m')) m = Some (Some h)"
  by (auto simp add: get_orchestrator_def Let_def split: option.splits)

lemma get_orchestrator_other:
  "m' \<noteq> m \<Longrightarrow>
   orchestrators (snd (get_orchestrator e st m)) m' = orchestrators st m' \<and>
   handles_for m' (trace (snd (get_orchestrator e st m))) = handles_for m' (trace st)"
  by (simp add: get_orchestrator_def Let_def handles_for_def split: option.splits)

lemma get_orchestrator_unchanged:
  "\<not> (orchestrators st m = Some None \<and> MockPipelineOrchestrator e m = None) \<Longrightarrow>
   snd (get_orchestrator e st m) = st"
  by (auto simp add: get_orchestrator_def split: option.splits)

lemma get_orchestrator_new:
  "orchestrators st m = Some None \<Longrightarrow> MockPipelineOrchestrator e m = None \<Longrightarrow>
   get_orchestrator e st m =
     (Inr (Handle m (length (trace st))),
      st\<lparr>orchestrators := (orchestrators st)(m \<mapsto> Some (Handle m (length (trace st)))),
         trace := trace st @ [Constructed (Handle m (length (trace st)))]\<rparr>)"
  by (simp add: get_orchestrator_def Let_def)

lemma registry_ok_get_orchestrator:
  assumes "registry_ok st"
  shows "registry_ok (snd (get_orchestrator e st m))"
proof (cases "orchestrators st m = Some None \<and> MockPipelineOrchestrator e m = None")
  case False
  then have "snd (get_orchestrator e st m) = st"
    by (rule get_orchestrator_unchanged)
  with assms show ?thesis by simp
next
  case True
  from assms have d: "dom (orchestrators st) = {lit ''arxiv'', lit ''local''}"
    and hs: "\<And>k. handles_for k (trace st) = stored st k"
    by (simp_all add: registry_ok_def)
  from True have "m \<in> dom (orchestrators st)" by (simp add: domI)
  with d have d': "insert m (dom (orchestrators st)) = {lit ''arxiv'', lit ''local''}"
    by auto
  from True hs [of m] have hm: "handles_for m (trace st) = []"
    by (simp add: stored_def)
  have "handles_for k (trace st @ [Constructed (Handle m (length (trace st)))])
        = stored (st\<lparr>orchestrators := (orchestrators st)(m \<mapsto> Some (Handle m (length (trace st)))),
                    trace := trace st @ [Constructed (Handle m (length (trace st)))]\<rparr>) k" for k
  proof (cases "k = m")
    case True
    with hm show ?thesis by (simp add: handles_for_def stored_def)
  next
    case False
    with hs [of k] show ?thesis by (simp add: handles_for_def stored_def)
  qed
  with True d' show ?thesis
    by (simp add: get_orchestrator_new registry_ok_def)
qed

lemma registry_ok_view:
  "registry_view a = registry_view b \<Longrightarrow> registry_ok a = registry_ok b"
  by (simp add: registry_view_def registry_ok_def handles_for_def stored_def)

lemma registry_ok_initial: "registry_ok initial_state"
  by (auto simp add: registry_ok_def initial_state_def handles_for_def stored_def)

lemma search_papers_registry:
  "registry_view (snd (search_papers e st request)) = registry_view st \<or>
   registry_view (snd (search_papers e st request))
     = registry_view (snd (get_orchestrator e st (SearchRequest.mode request)))"
proof -
  obtain r st1 where g: "get_orchestrator e st (SearchRequest.mode request) = (r, st1)"
    by (cases "get_orchestrator e st (SearchRequest.mode request)")
  show ?thesis
  proof (cases r)
    case (Inl x)
    with g show ?thesis
      by (simp add: search_papers_def search_papers_try_def)
  next
    case (Inr h)
    show ?thesis
    proof (cases "run_pipeline e h (abstract request)")
      case (Inl x)
      with g Inr show ?thesis
        by (simp add: search_papers_def search_papers_try_def registry_view_def)
    next
      case pr: (Inr results)
      with g Inr show ?thesis
        by (simp add: search_papers_def search_papers_try_def registry_view_def Let_def)
    qed
  qed
qed

lemma summarize_paper_registry:
  "registry_view (snd (summarize_paper e st request results papers)) = registry_view st \<or>
   registry_view (snd (summarize_paper e st request results papers))
     = registry_view (snd (get_orchestrator e st (SummaryRequest.mode request)))"
proof (cases "py_index papers (paper_index request - 1)")
  case (Inl f)
  then show ?thesis by (simp add: summarize_paper_def)
next
  case ix: (Inr paper)
  obtain r st1 where g: "get_orchestrator e st (SummaryRequest.mode request) = (r, st1)"
    by (cases "get_orchestrator e st (SummaryRequest.mode request)")
  show ?thesis
  proof (cases r)
    case (Inl x)
    with g ix show ?thesis by (simp add: summarize_paper_def)
  next
    case rh: (Inr h)
    show ?thesis
    proof (cases "orch_generate_summary e h paper")
      case (Inl x)
      with g ix rh show ?thesis by (simp add: summarize_paper_def registry_view_def)
    next
      case sm: (Inr summary)
      show ?thesis
      proof (cases "py_setitem paper (lit ''summary'') summary")
        case (Inl f)
        with g ix rh sm show ?thesis by (simp add: summarize_paper_def registry_view_def Let_def)
      next
        case (Inr paper')
        with g ix rh sm show ?thesis by (simp add: summarize_paper_def registry_view_def Let_def)
      qed
    qed
  qed
qed

lemma generate_summary_try_cases:
  "generate_summary_try e st request = (Inl (HTTPException 404 session_not_found), st) \<or>
   generate_summary_try e st request = (Inl (HTTPException 400 invalid_paper_index), st) \<or>
   generate_summary_try e st request = (Inl (HTTPException 404 paper_not_found), st) \<or>
   (\<exists>f. generate_summary_try e st request = (Inl (Fault f), st)) \<or>
   (\<exists>results papers. generate_summary_try e st request = summarize_paper e st request results papers)"
proof (cases "sessions st (session_id request)")
  case None
  then show ?thesis by (simp add: generate_summary_try_def)
next
  case (Some results)
  show ?thesis
  proof (cases "py_get results (lit ''top_5_papers'') (PList [])")
    case (Inl f)
    with Some show ?thesis by (simp add: generate_summary_try_def)
  next
    case pg: (Inr papers)
    show ?thesis
    proof (cases "py_len papers")
      case (Inl f)
      with Some pg show ?thesis by (simp add: generate_summary_try_def)
    next
      case (Inr n)
      with Some pg show ?thesis by (auto simp add: generate_summary_try_def)
    qed
  qed
qed

lemma generate_summary_registry:
  "registry_view (snd (generate_summary e st request)) = registry_view st \<or>
   registry_view (snd (generate_summary e st request))
     = registry_view (snd (get_orchestrator e st (SummaryRequest.mode request)))"
proof -
  consider (same) "snd (generate_summary_try e st request) = st"
    | (paper) results papers
        where "generate_summary_try e st request = summarize_paper e st request results papers"
    using generate_summary_try_cases [of e st request] by auto
  then show ?thesis
  proof cases
    case same
    then show ?thesis by (simp add: generate_summary_def)
  next
    case paper
    with summarize_paper_registry [of e st request results papers] show ?thesis
      by (simp add: generate_summary_def)
  qed
qed

lemma steps_registry_ok: "steps st st' \<Longrightarrow> registry_ok st \<Longrightarrow> registry_ok st'"
proof (induction rule: steps.induct)
  case (refl st)
  then show ?case .
next
  case (registry st st1 e m)
  then show ?case by (simp add: registry_ok_get_orchestrator)
next
  case (search st st1 e request)
  then have "registry_ok st1" by simp
  with search_papers_registry [of e st1 request] show ?case
    by (auto dest: registry_ok_view simp add: registry_ok_get_orchestrator)
next
  case (summary st st1 e sreq)
  then have "registry_ok st1" by simp
  with generate_summary_registry [of e st1 sreq] show ?case
    by (auto dest: registry_ok_view simp add: registry_ok_get_orchestrator)
qed

lemma reachable_registry_ok: "reachable st \<Longrightarrow> registry_ok st"
  unfolding reachable_def using steps_registry_ok registry_ok_initial by blast

lemma steps_keep_handle:
  "steps st st' \<Longrightarrow> orchestrators st m = Some (Some h) \<Longrightarrow> orchestrators st' m = Some (Some h)"
proof (induction rule: steps.induct)
  case (refl st)
  then show ?case .
next
  case (registry st st1 e m')
  then show ?case by (simp add: get_orchestrator_keeps)
next
  case (search st st1 e request)
  then have "orchestrators st1 m = Some (Some h)" by simp
  with search_papers_registry [of e st1 request] show ?case
    by (auto simp add: registry_view_def get_orchestrator_keeps)
next
  case (summary st st1 e sreq)
  then have "orchestrators st1 m = Some (Some h)" by simp
  with generate_summary_registry [of e st1 sreq] show ?case
    by (auto simp add: registry_view_def get_orchestrator_keeps)
qed

lemma steps_trans: "steps b c \<Longrightarrow> steps a b \<Longrightarrow> steps a c"
  by (induction rule: steps.induct) (auto intro: steps.intros)

lemma reachable_unknown_mode:
  "reachable st \<Longrightarrow> m \<notin> {lit ''arxiv'', lit ''local''} \<Longrightarrow> orchestrators st m = None"
  using reachable_registry_ok [of st] unfolding registry_ok_def by auto

section \<open>Facts about the concrete run\<close>

lemma example_papers:
  "py_get example_results (lit ''top_5_papers'') (PList []) =
     Inr (PList [example_paper1, example_paper2])"
  by (simp add: example_results_def)

lemma example_session:
  "sessions example_state (lit ''arxiv_20240309_140507'') = Some example_results"
  by (simp add: example_state_def)

lemma example_no_session: "sessions example_state (lit ''nowhere'') = None"
  by (simp add: example_state_def)

section \<open>Validation of a search request\<close>

text \<open>
  C3: the length check comes first and the mode check second. A request whose abstract
  has fewer than 50 code points is answered 400 \<open>abstract_too_short\<close> whatever its mode
  is; otherwise a mode other than \<open>arxiv\<close> and \<open>local\<close> is answered 400 \<open>invalid_mode\<close>.
  In both cases the state that comes back is the state that went in: no session is
  stored, the registry is as it was and the trace has no new call to a collaborator.
\<close>

theorem search_validation_short_circuits:
  "(length (abstract request) < 50 \<longrightarrow>
      search_papers e st request = (Inl (400, abstract_too_short), st)) \<and>
   (50 \<le> length (abstract request) \<and>
    SearchRequest.mode request \<notin> {lit ''arxiv'', lit ''local''} \<longrightarrow>
      search_papers e st request = (Inl (400, invalid_mode), st))"
  by (simp add: search_papers_def search_papers_try_def)

theorem search_validation_short_circuits_witness:
  "length (abstract \<lparr>SearchRequest.mode = lit ''bogus'', abstract = lit ''too short''\<rparr>) < 50 \<and>
   search_papers example_env initial_state \<lparr>SearchRequest.mode = lit ''bogus'', abstract = lit ''too short''\<rparr>
     = (Inl (400, abstract_too_short), initial_state) \<and>
   50 \<le> length (abstract \<lparr>SearchRequest.mode = lit ''bogus'', abstract = replicate 50 97\<rparr>) \<and>
   SearchRequest.mode \<lparr>SearchRequest.mode = lit ''bogus'', abstract = replicate 50 97\<rparr>
     \<notin> {lit ''arxiv'', lit ''local''} \<and>
   search_papers example_env initial_state \<lparr>SearchRequest.mode = lit ''bogus'', abstract = replicate 50 97\<rparr>
     = (Inl (400, invalid_mode), initial_state)"
  using search_validation_short_circuits
          [of "\<lparr>SearchRequest.mode = lit ''bogus'', abstract = lit ''too short''\<rparr>" example_env initial_state]
        search_validation_short_circuits
          [of "\<lparr>SearchRequest.mode = lit ''bogus'', abstract = replicate 50 97\<rparr>" example_env initial_state]
  by simp

section \<open>The order of the errors of a summary request\<close>

text \<open>
  C2: an unknown session is answered 404 \<open>session_not_found\<close> for every paper index;
  a known session with an index outside 1..5 is answered 400 \<open>invalid_paper_index\<close>
  whatever the session holds; a known session with an index in 1..5 that exceeds the
  number of its papers is answered 404 \<open>paper_not_found\<close>. The state is unchanged in all
  three cases.
\<close>

theorem summary_errors_in_fixed_order:
  "(sessions st (session_id request) = None \<longrightarrow>
      generate_summary e st request = (Inl (404, session_not_found), st)) \<and>
   (sessions st (session_id request) = Some results \<and>
    (paper_index request < 1 \<or> 5 < paper_index request) \<longrightarrow>
      generate_summary e st request = (Inl (400, invalid_paper_index), st)) \<and>
   (sessions st (session_id request) = Some results \<and>
    1 \<le> paper_index request \<and> paper_index request \<le> 5 \<and>
    py_get results (lit ''top_5_papers'') (PList []) = Inr papers \<and>
    py_len papers = Inr n \<and> int n < paper_index request \<longrightarrow>
      generate_summary e st request = (Inl (404, paper_not_found), st))"
  by (auto simp add: generate_summary_def generate_summary_try_def)

theorem summary_errors_in_fixed_order_witness:
  "sessions example_state (lit ''nowhere'') = None \<and>
   generate_summary example_env example_state
     \<lparr>SummaryRequest.mode = lit ''arxiv'', paper_index = 9, session_id = lit ''nowhere''\<rparr>
     = (Inl (404, session_not_found), example_state) \<and>
   sessions example_state (lit ''arxiv_20240309_140507'') = Some example_results \<and>
   generate_summary example_env example_state
     \<lparr>SummaryRequest.mode = lit ''arxiv'', paper_index = 6, session_id = lit ''arxiv_20240309_140507''\<rparr>
     = (Inl (400, invalid_paper_index), example_state) \<and>
   generate_summary example_env example_state
     \<lparr>SummaryRequest.mode = lit ''arxiv'', paper_index = 3, session_id = lit ''arxiv_20240309_140507''\<rparr>
     = (Inl (404, paper_not_found), example_state)"
  using summary_errors_in_fixed_order
          [of example_state "\<lparr>SummaryRequest.mode = lit ''arxiv'', paper_index = 9, session_id = lit ''nowhere''\<rparr>"
              example_env PNone PNone 0]
        summary_errors_in_fixed_order
          [of example_state
              "\<lparr>SummaryRequest.mode = lit ''arxiv'', paper_index = 6, session_id = lit ''arxiv_20240309_140507''\<rparr>"
              example_env example_results PNone 0]
        summary_errors_in_fixed_order
          [of example_state
              "\<lparr>SummaryRequest.mode = lit ''arxiv'', paper_index = 3, session_id = lit ''arxiv_20240309_140507''\<rparr>"
              example_env example_results "PList [example_paper1, example_paper2]" 2]
  by (simp add: example_papers example_session example_no_session)

section \<open>How a request gets through the handlers\<close>

lemma get_orchestrator_sessions_eq:
  "get_orchestrator e st m = (r, st1) \<Longrightarrow> sessions st1 = sessions st"
  using get_orchestrator_sessions [of e st m] by simp

lemma get_orchestrator_run_pipeline_update [simp]:
  "get_orchestrator (e\<lparr>run_pipeline := f\<rparr>) st m = get_orchestrator e st m"
  by (simp add: get_orchestrator_def split: option.splits)

lemma get_orchestrator_generate_summary_update [simp]:
  "get_orchestrator (e\<lparr>orch_generate_summary := f\<rparr>) st m = get_orchestrator e st m"
  by (simp add: get_orchestrator_def split: option.splits)

lemma search_papers_falsy:
  assumes "50 \<le> length (abstract request)"
    and "SearchRequest.mode request \<in> {lit ''arxiv'', lit ''local''}"
    and "get_orchestrator e st (SearchRequest.mode request) = (Inr h, st1)"
    and "run_pipeline e h (abstract request) = Inr v"
    and "\<not> truthy v"
  shows "search_papers e st request =
           (Inl (500, search_failed), st1\<lparr>trace := trace st1 @ [RanPipeline h (abstract request)]\<rparr>)"
  using assms by (auto simp add: search_papers_def search_papers_try_def)

lemma generate_summary_checked:
  assumes "sessions st (session_id request) = Some results"
    and "1 \<le> paper_index request" and "paper_index request \<le> 5"
    and "py_get results (lit ''top_5_papers'') (PList []) = Inr papers"
    and "py_len papers = Inr n"
    and "paper_index request \<le> int n"
  shows "generate_summary e st request = at_boundary (summarize_paper e st request results papers)"
  using assms by (simp add: generate_summary_def generate_summary_try_def)

lemma summarize_paper_falsy:
  assumes "py_index papers (paper_index request - 1) = Inr paper"
    and "get_orchestrator e st (SummaryRequest.mode request) = (Inr h, st1)"
    and "orch_generate_summary e h paper = Inr v"
    and "\<not> truthy v"
  shows "summarize_paper e st request results papers =
           (Inl (HTTPException 500 summary_failed),
            st1\<lparr>trace := trace st1 @ [GeneratedSummary h paper]\<rparr>)"
  using assms by (simp add: summarize_paper_def)

lemma example_get_orchestrator:
  "get_orchestrator example_env example_state (lit ''arxiv'')
     = (Inr (Handle (lit ''arxiv'') 0), example_state)"
  by (simp add: get_orchestrator_def example_state_def)

lemma example_request_fields:
  "abstract example_request = replicate 50 97"
  "SearchRequest.mode example_request = lit ''arxiv''"
  by (simp_all add: example_request_def)

lemma example_index [simp]: "py_position (Suc (Suc 0)) 0 = Some 0"
  by (simp add: py_position_def)

section \<open>A pipeline that returns nothing\<close>

text \<open>
  C5: a search request that passes both checks, whose orchestrator is resolved and
  whose \<open>run_pipeline\<close> returns \<open>None\<close>, is answered 500 \<open>search_failed\<close>, and the
  session store afterwards is the session store before: no session is created.
\<close>

theorem search_failed_on_absent_result:
  assumes "50 \<le> length (abstract request)"
    and "SearchRequest.mode request \<in> {lit ''arxiv'', lit ''local''}"
    and "get_orchestrator e st (SearchRequest.mode request) = (Inr h, st1)"
    and "run_pipeline e h (abstract request) = Inr PNone"
  shows "fst (search_papers e st request) = Inl (500, search_failed) \<and>
         sessions (snd (search_papers e st request)) = sessions st"
  using search_papers_falsy [OF assms] get_orchestrator_sessions_eq [OF assms(3)]
  by simp

theorem search_failed_on_absent_result_witness:
  "fst (search_papers (example_env\<lparr>run_pipeline := \<lambda>h a. Inr PNone\<rparr>) example_state example_request)
     = Inl (500, search_failed) \<and>
   sessions (snd (search_papers (example_env\<lparr>run_pipeline := \<lambda>h a. Inr PNone\<rparr>) example_state
                    example_request))
     = sessions example_state"
  using search_failed_on_absent_result
          [of example_request "example_env\<lparr>run_pipeline := \<lambda>h a. Inr PNone\<rparr>" example_state
              "Handle (lit ''arxiv'') 0" example_state]
  by (simp add: example_get_orchestrator example_request_fields)

section \<open>A summarizer that returns nothing\<close>

text \<open>
  C6: a summary request that passes the three checks, whose paper is found and whose
  orchestrator is resolved, and for which the summarizer returns \<open>None\<close>, is answered
  500 \<open>summary_failed\<close>, and the session store afterwards is the session store before:
  the stored result set, the summary of the target paper included, is untouched.
\<close>

theorem summary_failed_on_absent_result:
  assumes "sessions st (session_id request) = Some results"
    and "1 \<le> paper_index request" and "paper_index request \<le> 5"
    and "py_get results (lit ''top_5_papers'') (PList []) = Inr papers"
    and "py_len papers = Inr n"
    and "paper_index request \<le> int n"
    and "py_index papers (paper_index request - 1) = Inr paper"
    and "get_orchestrator e st (SummaryRequest.mode request) = (Inr h, st1)"
    and "orch_generate_summary e h paper = Inr PNone"
  shows "fst (generate_summary e st request) = Inl (500, summary_failed) \<and>
         sessions (snd (generate_summary e st request)) = sessions st"
  using generate_summary_checked [OF assms(1-6), of e]
    summarize_paper_falsy [OF assms(7-9), of results]
    get_orchestrator_sessions_eq [OF assms(8)]
  by simp

theorem summary_failed_on_absent_result_witness:
  "fst (generate_summary (example_env\<lparr>orch_generate_summary := \<lambda>h p. Inr PNone\<rparr>) example_state
          \<lparr>SummaryRequest.mode = lit ''arxiv'', paper_index = 1,
             session_id = lit ''arxiv_20240309_140507''\<rparr>)
     = Inl (500, summary_failed) \<and>
   sessions (snd (generate_summary (example_env\<lparr>orch_generate_summary := \<lambda>h p. Inr PNone\<rparr>)
                    example_state
                    \<lparr>SummaryRequest.mode = lit ''arxiv'', paper_index = 1,
                       session_id = lit ''arxiv_20240309_140507''\<rparr>))
     = sessions example_state"
  using summary_failed_on_absent_result
          [of example_state
              "\<lparr>SummaryRequest.mode = lit ''arxiv'', paper_index = 1,
                 session_id = lit ''arxiv_20240309_140507''\<rparr>"
              example_results "PList [example_paper1, example_paper2]" 2 example_paper1
              "example_env\<lparr>orch_generate_summary := \<lambda>h p. Inr PNone\<rparr>"
              "Handle (lit ''arxiv'') 0" example_state]
  by (simp add: example_get_orchestrator example_session example_papers)

section \<open>The mode of a summary request\<close>

text \<open>
  C9: \<open>generate_summary\<close> never checks its mode. In a reachable state, a request for an
  existing session and a paper that is there, with a mode other than \<open>arxiv\<close> and
  \<open>local\<close>, fails in \<open>get_orchestrator\<close> with \<open>KeyError(mode)\<close>; the handler turns it
  into a 500 whose detail is the text of that error, not into 400 \<open>invalid_mode\<close>, and
  the state (the session store included) is unchanged.
\<close>

theorem summary_mode_not_validated:
  assumes "reachable st"
    and "sessions st (session_id request) = Some results"
    and "1 \<le> paper_index request" and "paper_index request \<le> 5"
    and "py_get results (lit ''top_5_papers'') (PList []) = Inr papers"
    and "py_len papers = Inr n"
    and "paper_index request \<le> int n"
    and "py_index papers (paper_index request - 1) = Inr paper"
    and "SummaryRequest.mode request \<notin> {lit ''arxiv'', lit ''local''}"
  shows "generate_summary e st request =
           (Inl (500, StrOf (KeyError (PStr (SummaryRequest.mode request)))), st) \<and>
         fst (generate_summary e st request) \<noteq> Inl (400, invalid_mode)"
proof -
  from assms(1,9) have "orchestrators st (SummaryRequest.mode request) = None"
    by (rule reachable_unknown_mode)
  then have "get_orchestrator e st (SummaryRequest.mode request) =
               (Inl (Fault (KeyError (PStr (SummaryRequest.mode request)))), st)"
    by (simp add: get_orchestrator_def)
  with assms(8) have "summarize_paper e st request results papers =
               (Inl (Fault (KeyError (PStr (SummaryRequest.mode request)))), st)"
    by (simp add: summarize_paper_def)
  with generate_summary_checked [OF assms(2-7), of e] show ?thesis
    by simp
qed

theorem summary_mode_not_validated_witness:
  "generate_summary example_env example_state
     \<lparr>SummaryRequest.mode = lit ''bogus'', paper_index = 1,
        session_id = lit ''arxiv_20240309_140507''\<rparr>
     = (Inl (500, StrOf (KeyError (PStr (lit ''bogus'')))), example_state) \<and>
   fst (generate_summary example_env example_state
     \<lparr>SummaryRequest.mode = lit ''bogus'', paper_index = 1,
        session_id = lit ''arxiv_20240309_140507''\<rparr>) \<noteq> Inl (400, invalid_mode)"
  using summary_mode_not_validated
          [OF reachable_example_state,
           of "\<lparr>SummaryRequest.mode = lit ''bogus'', paper_index = 1,
                 session_id = lit ''arxiv_20240309_140507''\<rparr>"
              example_results "PList [example_paper1, example_paper2]" 2 example_paper1 example_env]
  by (simp add: example_session example_papers)

section \<open>Results are judged by truthiness\<close>

text \<open>
  C10: a result of \<open>run_pipeline\<close> that is present but falsy (an empty dictionary, for
  one) is answered 500 \<open>search_failed\<close> with no session stored, and a falsy result of
  the summarizer is answered 500 \<open>summary_failed\<close> with the session store unchanged; in
  both cases the answer and the state are those of the same request served by a
  collaborator that returns \<open>None\<close>.
\<close>

theorem empty_results_judged_by_truthiness:
  "(50 \<le> length (abstract request) \<and>
    SearchRequest.mode request \<in> {lit ''arxiv'', lit ''local''} \<and>
    get_orchestrator e st (SearchRequest.mode request) = (Inr h, st1) \<and>
    run_pipeline e h (abstract request) = Inr v \<and> \<not> truthy v \<longrightarrow>
      fst (search_papers e st request) = Inl (500, search_failed) \<and>
      sessions (snd (search_papers e st request)) = sessions st \<and>
      search_papers e st request
        = search_papers (e\<lparr>run_pipeline := \<lambda>h a. Inr PNone\<rparr>) st request) \<and>
   (sessions st (session_id sreq) = Some results \<and>
    1 \<le> paper_index sreq \<and> paper_index sreq \<le> 5 \<and>
    py_get results (lit ''top_5_papers'') (PList []) = Inr papers \<and>
    py_len papers = Inr n \<and> paper_index sreq \<le> int n \<and>
    py_index papers (paper_index sreq - 1) = Inr paper \<and>
    get_orchestrator e st (SummaryRequest.mode sreq) = (Inr h', st2) \<and>
    orch_generate_summary e h' paper = Inr v' \<and> \<not> truthy v' \<longrightarrow>
      fst (generate_summary e st sreq) = Inl (500, summary_failed) \<and>
      sessions (snd (generate_summary e st sreq)) = sessions st \<and>
      generate_summary e st sreq
        = generate_summary (e\<lparr>orch_generate_summary := \<lambda>h p. Inr PNone\<rparr>) st sreq)"
proof (intro conjI impI)
  assume a: "50 \<le> length (abstract request) \<and>
    SearchRequest.mode request \<in> {lit ''arxiv'', lit ''local''} \<and>
    get_orchestrator e st (SearchRequest.mode request) = (Inr h, st1) \<and>
    run_pipeline e h (abstract request) = Inr v \<and> \<not> truthy v"
  then have r: "search_papers e st request =
           (Inl (500, search_failed), st1\<lparr>trace := trace st1 @ [RanPipeline h (abstract request)]\<rparr>)"
    by (simp add: search_papers_falsy)
  from a have n: "search_papers (e\<lparr>run_pipeline := \<lambda>h a. Inr PNone\<rparr>) st request =
           (Inl (500, search_failed), st1\<lparr>trace := trace st1 @ [RanPipeline h (abstract request)]\<rparr>)"
    by (intro search_papers_falsy [where v = PNone]) simp_all
  from a have s: "sessions st1 = sessions st"
    by (auto dest: get_orchestrator_sessions_eq)
  from r show "fst (search_papers e st request) = Inl (500, search_failed)" by simp
  from r s show "sessions (snd (search_papers e st request)) = sessions st" by simp
  from r n show "search_papers e st request
        = search_papers (e\<lparr>run_pipeline := \<lambda>h a. Inr PNone\<rparr>) st request" by simp
next
  assume a: "sessions st (session_id sreq) = Some results \<and>
    1 \<le> paper_index sreq \<and> paper_index sreq \<le> 5 \<and>
    py_get results (lit ''top_5_papers'') (PList []) = Inr papers \<and>
    py_len papers = Inr n \<and> paper_index sreq \<le> int n \<and>
    py_index papers (paper_index sreq - 1) = Inr paper \<and>
    get_orchestrator e st (SummaryRequest.mode sreq) = (Inr h', st2) \<and>
    orch_generate_summary e h' paper = Inr v' \<and> \<not> truthy v'"
  then have c: "\<And>e'. generate_summary e' st sreq
                  = at_boundary (summarize_paper e' st sreq results papers)"
    by (simp add: generate_summary_checked)
  from a have r: "summarize_paper e st sreq results papers =
           (Inl (HTTPException 500 summary_failed),
            st2\<lparr>trace := trace st2 @ [GeneratedSummary h' paper]\<rparr>)"
    by (simp add: summarize_paper_falsy)
  from a have n: "summarize_paper (e\<lparr>orch_generate_summary := \<lambda>h p. Inr PNone\<rparr>) st sreq results papers =
           (Inl (HTTPException 500 summary_failed),
            st2\<lparr>trace := trace st2 @ [GeneratedSummary h' paper]\<rparr>)"
    by (intro summarize_paper_falsy [where v = PNone]) simp_all
  from a have s: "sessions st2 = sessions st"
    by (auto dest: get_orchestrator_sessions_eq)
  from c r show "fst (generate_summary e st sreq) = Inl (500, summary_failed)" by simp
  from c r s show "sessions (snd (generate_summary e st sreq)) = sessions st" by simp
  from c r n show "generate_summary e st sreq
        = generate_summary (e\<lparr>orch_generate_summary := \<lambda>h p. Inr PNone\<rparr>) st sreq" by simp
qed

theorem empty_results_judged_by_truthiness_witness:
  "\<not> truthy (PDict (Obj 4) []) \<and>
   fst (search_papers (example_env\<lparr>run_pipeline := \<lambda>h a. Inr (PDict (Obj 4) [])\<rparr>) example_state example_request)
     = Inl (500, search_failed) \<and>
   sessions (snd (search_papers (example_env\<lparr>run_pipeline := \<lambda>h a. Inr (PDict (Obj 4) [])\<rparr>) example_state
                    example_request))
     = sessions example_state \<and>
   fst (generate_summary (example_env\<lparr>orch_generate_summary := \<lambda>h p. Inr (PDict (Obj 4) [])\<rparr>) example_state
          \<lparr>SummaryRequest.mode = lit ''arxiv'', paper_index = 1,
             session_id = lit ''arxiv_20240309_140507''\<rparr>)
     = Inl (500, summary_failed) \<and>
   sessions (snd (generate_summary (example_env\<lparr>orch_generate_summary := \<lambda>h p. Inr (PDict (Obj 4) [])\<rparr>)
                    example_state
                    \<lparr>SummaryRequest.mode = lit ''arxiv'', paper_index = 1,
                       session_id = lit ''arxiv_20240309_140507''\<rparr>))
     = sessions example_state"
  using empty_results_judged_by_truthiness
          [of example_request "example_env\<lparr>run_pipeline := \<lambda>h a. Inr (PDict (Obj 4) [])\<rparr>" example_state
              "Handle (lit ''arxiv'') 0" example_state "PDict (Obj 4) []"
              "\<lparr>SummaryRequest.mode = lit ''bogus'', paper_index = 0, session_id = lit ''nowhere''\<rparr>"
              PNone PNone 0 PNone "Handle (lit ''arxiv'') 0" example_state PNone]
        empty_results_judged_by_truthiness
          [of "\<lparr>SearchRequest.mode = lit ''bogus'', abstract = []\<rparr>"
              "example_env\<lparr>orch_generate_summary := \<lambda>h p. Inr (PDict (Obj 4) [])\<rparr>" example_state
              "Handle (lit ''arxiv'') 0" example_state PNone
              "\<lparr>SummaryRequest.mode = lit ''arxiv'', paper_index = 1,
                 session_id = lit ''arxiv_20240309_140507''\<rparr>"
              example_results "PList [example_paper1, example_paper2]" 2 example_paper1
              "Handle (lit ''arxiv'') 0" example_state "PDict (Obj 4) []"]
  by (simp (no_asm_use) add: example_get_orchestrator example_request_fields example_session
      example_papers example_no_session) blast

section \<open>Reachable states and the registry\<close>

lemma reachable_initial: "reachable initial_state"
  by (simp add: reachable_def steps.refl)

lemma reachable_steps: "reachable st \<Longrightarrow> steps st st' \<Longrightarrow> reachable st'"
  unfolding reachable_def by (rule steps_trans)

lemma length_stored: "length (stored st m) \<le> 1"
  by (simp add: stored_def split: option.splits)

lemma example_registry:
  "orchestrators initial_state (lit ''arxiv'') = Some None"
  "orchestrators example_state (lit ''arxiv'') = Some (Some (Handle (lit ''arxiv'') 0))"
  "orchestrators example_state (lit ''local'') = Some None"
  "MockPipelineOrchestrator example_env m = None"
  "trace initial_state = []"
  by (simp_all add: initial_state_def example_state_def example_env_def)

section \<open>The registry is a memoizing factory\<close>

text \<open>
  C8: in every state the process can reach, at most one orchestrator has been
  constructed for any mode, and each of the two modes has an entry. While the entry of a
  mode is \<open>None\<close> nothing has been constructed for it, and \<open>get_orchestrator\<close> constructs
  one object, stores it and returns it. Once an object is stored for a mode, every later
  call for that mode, after whatever requests, returns that object, changes nothing and
  constructs nothing, so it stays the only one of its mode. A call for one mode leaves
  the entry and the objects of every other mode as they were.
\<close>

theorem registry_memoizes:
  assumes "reachable st"
  shows "length (handles_for m (trace st)) \<le> 1 \<and>
    (m \<in> {lit ''arxiv'', lit ''local''} \<longrightarrow> orchestrators st m \<noteq> None) \<and>
    (orchestrators st m = Some None \<and> MockPipelineOrchestrator e m = None \<longrightarrow>
       handles_for m (trace st) = [] \<and>
       get_orchestrator e st m =
         (Inr (Handle m (length (trace st))),
          st\<lparr>orchestrators := (orchestrators st)(m \<mapsto> Some (Handle m (length (trace st)))),
             trace := trace st @ [Constructed (Handle m (length (trace st)))]\<rparr>)) \<and>
    (orchestrators st m = Some (Some h) \<and> steps st st' \<longrightarrow>
       get_orchestrator e st' m = (Inr h, st') \<and> handles_for m (trace st') = [h]) \<and>
    (m' \<noteq> m \<longrightarrow>
       orchestrators (snd (get_orchestrator e st m)) m' = orchestrators st m' \<and>
       handles_for m' (trace (snd (get_orchestrator e st m))) = handles_for m' (trace st))"
proof -
  from assms have ok: "registry_ok st" by (rule reachable_registry_ok)
  then have hs: "\<And>k. handles_for k (trace st) = stored st k"
    and d: "dom (orchestrators st) = {lit ''arxiv'', lit ''local''}"
    by (simp_all add: registry_ok_def)
  have one: "length (handles_for m (trace st)) \<le> 1"
    using length_stored [of st m] by (simp add: hs)
  have two: "m \<in> {lit ''arxiv'', lit ''local''} \<longrightarrow> orchestrators st m \<noteq> None"
    using d by blast
  have three: "orchestrators st m = Some None \<and> MockPipelineOrchestrator e m = None \<longrightarrow>
       handles_for m (trace st) = [] \<and>
       get_orchestrator e st m =
         (Inr (Handle m (length (trace st))),
          st\<lparr>orchestrators := (orchestrators st)(m \<mapsto> Some (Handle m (length (trace st)))),
             trace := trace st @ [Constructed (Handle m (length (trace st)))]\<rparr>)"
    by (simp add: hs stored_def get_orchestrator_new)
  have four: "orchestrators st m = Some (Some h) \<and> steps st st' \<longrightarrow>
       get_orchestrator e st' m = (Inr h, st') \<and> handles_for m (trace st') = [h]"
  proof
    assume a: "orchestrators st m = Some (Some h) \<and> steps st st'"
    then have k: "orchestrators st' m = Some (Some h)"
      using steps_keep_handle [of st st' m h] by blast
    from a assms have "reachable st'" using reachable_steps [of st st'] by blast
    then have "registry_ok st'" by (rule reachable_registry_ok)
    then have "handles_for m (trace st') = stored st' m" by (simp add: registry_ok_def)
    with k show "get_orchestrator e st' m = (Inr h, st') \<and> handles_for m (trace st') = [h]"
      by (simp add: get_orchestrator_def stored_def)
  qed
  have five: "m' \<noteq> m \<longrightarrow>
       orchestrators (snd (get_orchestrator e st m)) m' = orchestrators st m' \<and>
       handles_for m' (trace (snd (get_orchestrator e st m))) = handles_for m' (trace st)"
    by (simp add: get_orchestrator_other)
  from one two three four five show ?thesis by blast
qed

theorem registry_memoizes_witness:
  "get_orchestrator example_env initial_state (lit ''arxiv'') =
     (Inr (Handle (lit ''arxiv'') 0),
      initial_state\<lparr>orchestrators := (orchestrators initial_state)(lit ''arxiv'' \<mapsto> Some (Handle (lit ''arxiv'') 0)),
                    trace := [Constructed (Handle (lit ''arxiv'') 0)]\<rparr>) \<and>
   get_orchestrator example_env example_state (lit ''arxiv'') =
     (Inr (Handle (lit ''arxiv'') 0), example_state) \<and>
   handles_for (lit ''arxiv'') (trace example_state) = [Handle (lit ''arxiv'') 0] \<and>
   orchestrators (snd (get_orchestrator example_env example_state (lit ''arxiv''))) (lit ''local'')
     = Some None"
  using registry_memoizes
          [OF reachable_initial, of "lit ''arxiv''" example_env "Handle (lit ''arxiv'') 0"
              initial_state "lit ''local''"]
        registry_memoizes
          [OF reachable_example_state, of "lit ''arxiv''" example_env "Handle (lit ''arxiv'') 0"
              example_state "lit ''local''"]
  by (simp add: example_registry steps.refl)

section \<open>What a successful search has done\<close>

lemma search_papers_success:
  assumes ok: "search_papers e st request = (Inr response, st')"
  obtains h st1 results where
    "50 \<le> length (abstract request)"
    "SearchRequest.mode request \<in> {lit ''arxiv'', lit ''local''}"
    "get_orchestrator e st (SearchRequest.mode request) = (Inr h, st1)"
    "run_pipeline e h (abstract request) = Inr results"
    "truthy results"
    "st' = st1\<lparr>trace := trace st1 @ [RanPipeline h (abstract request)],
               sessions := (sessions st1)
                 (SearchRequest.mode request @ lit ''_'' @ strftime (now e) \<mapsto> results)\<rparr>"
    "search_response (SearchRequest.mode request @ lit ''_'' @ strftime (now e)) request results
       = Inr response"
proof -
  have len: "50 \<le> length (abstract request)"
    using ok by (cases "length (abstract request) < 50")
      (simp_all add: search_papers_def search_papers_try_def)
  have md: "SearchRequest.mode request \<in> {lit ''arxiv'', lit ''local''}"
    using ok len by (cases "SearchRequest.mode request \<in> {lit ''arxiv'', lit ''local''}")
      (simp_all add: search_papers_def search_papers_try_def)
  obtain r st1 where g: "get_orchestrator e st (SearchRequest.mode request) = (r, st1)"
    by (cases "get_orchestrator e st (SearchRequest.mode request)")
  show ?thesis
  proof (cases r)
    case (Inl x)
    with ok len md g show ?thesis
      by (auto simp add: search_papers_def search_papers_try_def)
  next
    case rh: (Inr h)
    show ?thesis
    proof (cases "run_pipeline e h (abstract request)")
      case (Inl x)
      with ok len md g rh show ?thesis
        by (auto simp add: search_papers_def search_papers_try_def)
    next
      case pr: (Inr results)
      show ?thesis
      proof (cases "truthy results")
        case False
        with ok len md g rh pr show ?thesis
          by (auto simp add: search_papers_def search_papers_try_def)
      next
        case True
        show ?thesis
        proof (cases "search_response (SearchRequest.mode request @ lit ''_'' @ strftime (now e))
                        request results")
          case (Inl f)
          with ok len md g rh pr True show ?thesis
            by (auto simp add: search_papers_def search_papers_try_def Let_def)
        next
          case (Inr resp)
          with ok len md g rh pr True have "resp = response"
            and "st' = st1\<lparr>trace := trace st1 @ [RanPipeline h (abstract request)],
               sessions := (sessions st1)
                 (SearchRequest.mode request @ lit ''_'' @ strftime (now e) \<mapsto> results)\<rparr>"
            by (auto simp add: search_papers_def search_papers_try_def Let_def)
          with len md g rh pr True Inr that show ?thesis by blast
        qed
      qed
    qed
  qed
qed

lemma bindE_Inr:
  "bindE m f = Inr y \<Longrightarrow> \<exists>x. m = Inr x \<and> f x = Inr y"
  by (cases m) simp_all

lemma format_paper_success:
  assumes "format_paper paper = Inr entry"
  shows "\<exists>a pd. paper = PDict a pd \<and>
           (case map_of pd (lit ''abstract'') of
              None \<Rightarrow> py_get entry (lit ''abstract'') PNone = Inr (PStr (lit ''...''))
            | Some a \<Rightarrow> \<exists>s. a = PStr s \<and>
                  py_get entry (lit ''abstract'') PNone = Inr (PStr (take 300 s @ lit ''...'')))"
proof (cases paper)
  case (PDict a pd)
  show ?thesis
  proof (cases "map_of pd (lit ''abstract'')")
    case None
    with assms PDict show ?thesis
      by (auto simp add: format_paper_def)
  next
    case (Some a)
    with assms PDict show ?thesis
      by (cases a) (auto simp add: format_paper_def)
  qed
qed (use assms in \<open>simp_all add: format_paper_def\<close>)

lemma format_papers_success:
  "format_papers ps = Inr entries \<Longrightarrow>
   length entries = length ps \<and> (\<forall>i<length ps. format_paper (ps ! i) = Inr (entries ! i))"
proof (induction ps arbitrary: entries)
  case Nil
  then show ?case by simp
next
  case (Cons p ps)
  from Cons.prems obtain x where x: "format_paper p = Inr x"
    and r: "bindE (format_papers ps) (\<lambda>entries. Inr (x # entries)) = Inr entries"
    by (auto dest: bindE_Inr)
  from r obtain xs where xs: "format_papers ps = Inr xs" and e: "entries = x # xs"
    by (auto dest: bindE_Inr)
  from Cons.IH [OF xs] x e show ?case
    by (auto simp add: nth_Cons split: nat.splits)
qed

lemma search_response_success:
  assumes "search_response sid request results = Inr response"
  shows "\<exists>ps entries. first_five_papers results = Inr ps \<and> format_papers ps = Inr entries \<and>
           py_get response (lit ''top_5_papers'') PNone = Inr (PList entries) \<and>
           py_get response (lit ''session_id'') PNone = Inr (PStr sid)"
proof (cases results)
  case (PDict r rd)
  from assms obtain ps where ps: "first_five_papers results = Inr ps"
    by (cases "first_five_papers results") (simp_all add: search_response_def PDict)
  with assms obtain entries where en: "format_papers ps = Inr entries"
    by (cases "format_papers ps") (simp_all add: search_response_def PDict)
  with assms ps have
    "py_get response (lit ''top_5_papers'') PNone = Inr (PList entries) \<and>
     py_get response (lit ''session_id'') PNone = Inr (PStr sid)"
    by (auto simp add: search_response_def PDict)
  with ps en show ?thesis by blast
qed (use assms in \<open>simp_all add: search_response_def\<close>)

lemma first_five_papers_count:
  assumes "first_five_papers results = Inr ps"
  shows "\<exists>papers n. py_get results (lit ''top_5_papers'') (PList []) = Inr papers \<and>
           py_len papers = Inr n \<and> length ps \<le> 5 \<and> length ps \<le> n"
proof -
  from assms obtain papers where p: "py_get results (lit ''top_5_papers'') (PList []) = Inr papers"
    and q: "bindE (py_slice_to 5 papers) py_iter = Inr ps"
    unfolding first_five_papers_def by (auto dest: bindE_Inr)
  from q have "\<exists>n. py_len papers = Inr n \<and> length ps \<le> 5 \<and> length ps \<le> n"
    by (cases papers) auto
  with p show ?thesis by blast
qed

lemma is_digit_digit [simp]: "is_digit (digit n)"
  by (simp add: is_digit_def digit_def)

lemma timestamp_format_strftime: "timestamp_format (strftime t)"
  by (simp add: timestamp_format_def strftime_def pad2_def pad4_def lit_def)

lemma decimal_pad2: 
  assumes "n < 100" shows "decimal (pad2 n) = n"
proof -
  from assms have "n div 10 < 10" by simp
  then have "n div 10 mod 10 = n div 10" by simp
  then show ?thesis
    by (simp add: decimal_def pad2_def digit_def)
qed

lemma decimal_pad4:
  assumes "n < 10000" shows "decimal (pad4 n) = n"
proof -
  from assms have "n div 1000 < 10" by simp
  then have a: "n div 1000 mod 10 = n div 1000" by simp
  have "n div (100 * 10) = n div 100 div 10" by (rule div_mult2_eq)
  then have b: "n div 100 = 10 * (n div 1000) + n div 100 mod 10"
    by simp
  have "n div (10 * 10) = n div 10 div 10" by (rule div_mult2_eq)
  then have c: "n div 10 = 10 * (n div 100) + n div 10 mod 10"
    by simp
  have d: "n = 10 * (n div 10) + n mod 10"
    by simp
  have "decimal (pad4 n) =
        10 * (10 * (10 * (n div 1000) + n div 100 mod 10) + n div 10 mod 10) + n mod 10"
    by (simp add: decimal_def pad4_def digit_def a)
  also have "\<dots> = 10 * (10 * (n div 100) + n div 10 mod 10) + n mod 10"
    using b by simp
  also have "\<dots> = 10 * (n div 10) + n mod 10"
    using c by simp
  also have "\<dots> = n" by simp
  finally show ?thesis .
qed

lemma parse_timestamp_strftime:
  assumes "valid_datetime t"
  shows "parse_timestamp (strftime t) =
           \<lparr>year = year t, month = month t, day = day t,
            hour = hour t, minute = minute t, second = second t\<rparr>"
proof -
  have l: "length (pad4 n) = 4" "length (pad2 n) = 2" for n
    by (simp_all add: pad4_def pad2_def)
  from assms have
    "decimal (pad4 (year t)) = year t" "decimal (pad2 (month t)) = month t"
    "decimal (pad2 (day t)) = day t" "decimal (pad2 (hour t)) = hour t"
    "decimal (pad2 (minute t)) = minute t" "decimal (pad2 (second t)) = second t"
    by (simp_all add: valid_datetime_def decimal_pad2 decimal_pad4)
  then show ?thesis
    by (simp add: parse_timestamp_def strftime_def l lit_def)
qed

lemma take_lit: "take n (lit s) = lit (take n s)"
  by (simp add: lit_def take_map)

lemma lit_Nil [simp]: "lit [] = []"
  by (simp add: lit_def)

lemma example_search_response:
  "search_response (lit ''arxiv_20240309_140507'') example_request example_results
     = Inr example_response"
  by (simp add: search_response_def first_five_papers_def format_paper_def example_results_def
      example_paper1_def example_paper2_def example_response_def example_entry1_def
      example_entry2_def example_request_def take_lit lit_append)

lemma example_search_full:
  "search_papers example_env initial_state example_request = (Inr example_response, example_state)"
proof -
  have g: "get_orchestrator example_env initial_state (lit ''arxiv'') =
             (Inr (Handle (lit ''arxiv'') 0),
              initial_state\<lparr>orchestrators := (orchestrators initial_state)
                               (lit ''arxiv'' \<mapsto> Some (Handle (lit ''arxiv'') 0)),
                             trace := [Constructed (Handle (lit ''arxiv'') 0)]\<rparr>)"
    by (simp add: get_orchestrator_def initial_state_def example_env_def Let_def)
  have t: "strftime (now example_env) = lit ''20240309_140507''"
    by (simp add: example_env_def strftime_example)
  have p: "run_pipeline example_env h a = Inr example_results" for h a
    by (simp add: example_env_def)
  have r: "truthy example_results"
    by (simp add: example_results_def)
  show ?thesis
    using example_search_response
    by (simp add: search_papers_def search_papers_try_def g t p r lit_append
        example_request_fields)
      (simp add: initial_state_def example_state_def)
qed

lemma example_search_again:
  "search_papers example_env example_state example_request
     = (Inr example_response, example_state_again)"
proof -
  have t: "strftime (now example_env) = lit ''20240309_140507''"
    by (simp add: example_env_def strftime_example)
  have p: "run_pipeline example_env h a = Inr example_results" for h a
    by (simp add: example_env_def)
  have r: "truthy example_results"
    by (simp add: example_results_def)
  have s: "(sessions example_state)(lit ''arxiv_20240309_140507'' \<mapsto> example_results)
             = sessions example_state"
    by (simp add: example_state_def)
  show ?thesis
    using example_search_response
    by (simp add: search_papers_def search_papers_try_def example_get_orchestrator t p r
        lit_append example_request_fields s example_state_again_def)
qed

lemma response_abstracts:
  assumes "search_papers e st request = (Inr response, st')"
  shows "\<exists>h st1 results ps entries.
           get_orchestrator e st (SearchRequest.mode request) = (Inr h, st1) \<and>
           run_pipeline e h (abstract request) = Inr results \<and>
           first_five_papers results = Inr ps \<and>
           py_get response (lit ''top_5_papers'') PNone = Inr (PList entries) \<and>
           length entries = length ps \<and>
           (\<forall>i<length ps. \<exists>a pd. ps ! i = PDict a pd \<and>
              (case map_of pd (lit ''abstract'') of
                 None \<Rightarrow> py_get (entries ! i) (lit ''abstract'') PNone = Inr (PStr (lit ''...''))
               | Some a \<Rightarrow> \<exists>s. a = PStr s \<and>
                   py_get (entries ! i) (lit ''abstract'') PNone
                     = Inr (PStr (take 300 s @ lit ''...''))))"
proof -
  from assms obtain h st1 results where
    g: "get_orchestrator e st (SearchRequest.mode request) = (Inr h, st1)"
    and p: "run_pipeline e h (abstract request) = Inr results"
    and r: "search_response (SearchRequest.mode request @ lit ''_'' @ strftime (now e)) request results
       = Inr response"
    by (rule search_papers_success)
  from search_response_success [OF r] obtain ps entries where
    f: "first_five_papers results = Inr ps" and fp: "format_papers ps = Inr entries"
    and t: "py_get response (lit ''top_5_papers'') PNone = Inr (PList entries)"
    by blast
  from format_papers_success [OF fp] have len: "length entries = length ps"
    and each: "\<And>i. i < length ps \<Longrightarrow> format_paper (ps ! i) = Inr (entries ! i)"
    by simp_all
  have all: "\<forall>i<length ps. \<exists>a pd. ps ! i = PDict a pd \<and>
              (case map_of pd (lit ''abstract'') of
                 None \<Rightarrow> py_get (entries ! i) (lit ''abstract'') PNone = Inr (PStr (lit ''...''))
               | Some a \<Rightarrow> \<exists>s. a = PStr s \<and>
                   py_get (entries ! i) (lit ''abstract'') PNone
                     = Inr (PStr (take 300 s @ lit ''...'')))"
  proof (intro allI impI)
    fix i assume "i < length ps"
    then have "format_paper (ps ! i) = Inr (entries ! i)" by (rule each)
    then show "\<exists>a pd. ps ! i = PDict a pd \<and>
              (case map_of pd (lit ''abstract'') of
                 None \<Rightarrow> py_get (entries ! i) (lit ''abstract'') PNone = Inr (PStr (lit ''...''))
               | Some a \<Rightarrow> \<exists>s. a = PStr s \<and>
                   py_get (entries ! i) (lit ''abstract'') PNone
                     = Inr (PStr (take 300 s @ lit ''...'')))"
      by (rule format_paper_success)
  qed
  show ?thesis
    apply (rule exI [of _ h])
    apply (rule exI [of _ st1])
    apply (rule exI [of _ results])
    apply (rule exI [of _ ps])
    apply (rule exI [of _ entries])
    apply (intro conjI)
         apply (rule g)
        apply (rule p)
       apply (rule f)
      apply (rule t)
     apply (rule len)
    apply (rule all)
    done
qed

lemma format_paper_total:
  "map_of pd (lit ''abstract'') = Some (PStr s) \<Longrightarrow>
     \<exists>entry. format_paper (PDict a pd) = Inr entry \<and>
       py_get entry (lit ''abstract'') PNone = Inr (PStr (take 300 s @ lit ''...''))"
  "map_of pd (lit ''abstract'') = None \<Longrightarrow>
     \<exists>entry. format_paper (PDict a pd) = Inr entry \<and>
       py_get entry (lit ''abstract'') PNone = Inr (PStr (lit ''...''))"
  by (simp_all add: format_paper_def)

lemma format_papers_total:
  assumes "\<forall>p\<in>set ps. \<exists>a pd. p = PDict a pd \<and>
             (map_of pd (lit ''abstract'') = None \<or>
              (\<exists>s. map_of pd (lit ''abstract'') = Some (PStr s)))"
  shows "\<exists>entries. format_papers ps = Inr entries"
  using assms
proof (induction ps)
  case Nil
  then show ?case by simp
next
  case (Cons p ps)
  then obtain a pd where p: "p = PDict a pd"
    and ab: "map_of pd (lit ''abstract'') = None \<or>
              (\<exists>s. map_of pd (lit ''abstract'') = Some (PStr s))"
    by auto
  from ab obtain entry where "format_paper (PDict a pd) = Inr entry"
    using format_paper_total(1) [of pd _ a] format_paper_total(2) [of pd a] by blast
  moreover from Cons obtain entries where "format_papers ps = Inr entries"
    by auto
  ultimately show ?case using p by simp
qed

lemma search_response_total:
  assumes "map_of rd (lit ''top_5_papers'') = Some (PList ps)"
    and "\<forall>p\<in>set (take 5 ps). \<exists>a pd. p = PDict a pd \<and>
             (map_of pd (lit ''abstract'') = None \<or>
              (\<exists>s. map_of pd (lit ''abstract'') = Some (PStr s)))"
  shows "\<exists>response entries. search_response sid request (PDict r rd) = Inr response \<and>
           format_papers (take 5 ps) = Inr entries \<and>
           py_get response (lit ''top_5_papers'') PNone = Inr (PList entries)"
proof -
  from format_papers_total [OF assms(2)] obtain entries where
    "format_papers (take 5 ps) = Inr entries" by blast
  with assms(1) show ?thesis
    by (simp add: search_response_def first_five_papers_def)
qed

lemma search_papers_total:
  assumes "50 \<le> length (abstract request)"
    and "SearchRequest.mode request \<in> {lit ''arxiv'', lit ''local''}"
    and "get_orchestrator e st (SearchRequest.mode request) = (Inr h, st1)"
    and "run_pipeline e h (abstract request) = Inr (PDict r rd)"
    and "rd \<noteq> []"
    and "map_of rd (lit ''top_5_papers'') = Some (PList ps)"
    and "\<forall>p\<in>set (take 5 ps). \<exists>a pd. p = PDict a pd \<and>
             (map_of pd (lit ''abstract'') = None \<or>
              (\<exists>s. map_of pd (lit ''abstract'') = Some (PStr s)))"
  shows "\<exists>response st' entries.
           search_papers e st request = (Inr response, st') \<and>
           py_get response (lit ''top_5_papers'') PNone = Inr (PList entries) \<and>
           length entries = min 5 (length ps) \<and>
           (\<forall>i<length entries. format_paper (ps ! i) = Inr (entries ! i))"
proof -
  from search_response_total [OF assms(6,7)] obtain response entries where
    r: "search_response (SearchRequest.mode request @ lit ''_'' @ strftime (now e)) request (PDict r rd)
       = Inr response"
    and f: "format_papers (take 5 ps) = Inr entries"
    and t: "py_get response (lit ''top_5_papers'') PNone = Inr (PList entries)"
    by blast
  from format_papers_success [OF f] have
    l: "length entries = min 5 (length ps)"
    and each: "\<forall>i<length entries. format_paper (ps ! i) = Inr (entries ! i)"
    by (simp_all add: min.commute)
  from r assms(1-5) have "\<exists>st'. search_papers e st request = (Inr response, st')"
    by (auto simp add: search_papers_def search_papers_try_def Let_def)
  with t l each show ?thesis by blast
qed

lemma long_get_orchestrator:
  "get_orchestrator long_env initial_state (lit ''arxiv'') =
     (Inr (Handle (lit ''arxiv'') 0),
      initial_state\<lparr>orchestrators := (orchestrators initial_state)
                       (lit ''arxiv'' \<mapsto> Some (Handle (lit ''arxiv'') 0)),
                    trace := [Constructed (Handle (lit ''arxiv'') 0)]\<rparr>)"
  by (simp add: get_orchestrator_def initial_state_def long_env_def example_env_def Let_def)

section \<open>The abstract of a paper in the response\<close>

text \<open>
  C1: when a search succeeds, the response lists one entry for each of the first five
  papers of the pipeline's result, in order, and the \<open>abstract\<close> of an entry is the
  first 300 code points of that paper's abstract followed by \<open>...\<close>, whether or not
  anything was cut off; a paper without an abstract gets exactly \<open>...\<close>. Every paper
  whose abstract is a string, of whatever length, or is missing, is given such an entry:
  formatting it does not fail. And a search does succeed whenever the request passes both
  checks, the orchestrator is resolved and the pipeline returns a non-empty dictionary
  whose first five papers are dictionaries of that kind; its response then has one entry
  for each of the first five papers (for all of them when there are fewer), the entry
  that formatting the paper gives.
\<close>

theorem abstract_truncation:
  "(search_papers e st request = (Inr response, st') \<longrightarrow>
      (\<exists>h st1 results ps entries.
           get_orchestrator e st (SearchRequest.mode request) = (Inr h, st1) \<and>
           run_pipeline e h (abstract request) = Inr results \<and>
           first_five_papers results = Inr ps \<and>
           py_get response (lit ''top_5_papers'') PNone = Inr (PList entries) \<and>
           length entries = length ps \<and>
           (\<forall>i<length ps. \<exists>a pd. ps ! i = PDict a pd \<and>
              (case map_of pd (lit ''abstract'') of
                 None \<Rightarrow> py_get (entries ! i) (lit ''abstract'') PNone = Inr (PStr (lit ''...''))
               | Some a \<Rightarrow> \<exists>s. a = PStr s \<and>
                   py_get (entries ! i) (lit ''abstract'') PNone
                     = Inr (PStr (take 300 s @ lit ''...'')))))) \<and>
   (map_of pd (lit ''abstract'') = Some (PStr s) \<longrightarrow>
      (\<exists>entry. format_paper (PDict a pd) = Inr entry \<and>
         py_get entry (lit ''abstract'') PNone = Inr (PStr (take 300 s @ lit ''...'')))) \<and>
   (map_of pd (lit ''abstract'') = None \<longrightarrow>
      (\<exists>entry. format_paper (PDict a pd) = Inr entry \<and>
         py_get entry (lit ''abstract'') PNone = Inr (PStr (lit ''...'')))) \<and>
   (50 \<le> length (abstract request) \<and>
    SearchRequest.mode request \<in> {lit ''arxiv'', lit ''local''} \<and>
    get_orchestrator e st (SearchRequest.mode request) = (Inr h0, st0) \<and>
    run_pipeline e h0 (abstract request) = Inr (PDict r rd) \<and> rd \<noteq> [] \<and>
    map_of rd (lit ''top_5_papers'') = Some (PList papers) \<and>
    (\<forall>p\<in>set (take 5 papers). \<exists>a pd. p = PDict a pd \<and>
       (map_of pd (lit ''abstract'') = None \<or>
        (\<exists>s. map_of pd (lit ''abstract'') = Some (PStr s)))) \<longrightarrow>
      (\<exists>response st' entries.
         search_papers e st request = (Inr response, st') \<and>
         py_get response (lit ''top_5_papers'') PNone = Inr (PList entries) \<and>
         length entries = min 5 (length papers) \<and>
         (\<forall>i<length entries. format_paper (papers ! i) = Inr (entries ! i))))"
proof (intro conjI impI)
  assume "search_papers e st request = (Inr response, st')"
  then show "\<exists>h st1 results ps entries.
           get_orchestrator e st (SearchRequest.mode request) = (Inr h, st1) \<and>
           run_pipeline e h (abstract request) = Inr results \<and>
           first_five_papers results = Inr ps \<and>
           py_get response (lit ''top_5_papers'') PNone = Inr (PList entries) \<and>
           length entries = length ps \<and>
           (\<forall>i<length ps. \<exists>a pd. ps ! i = PDict a pd \<and>
              (case map_of pd (lit ''abstract'') of
                 None \<Rightarrow> py_get (entries ! i) (lit ''abstract'') PNone = Inr (PStr (lit ''...''))
               | Some a \<Rightarrow> \<exists>s. a = PStr s \<and>
                   py_get (entries ! i) (lit ''abstract'') PNone
                     = Inr (PStr (take 300 s @ lit ''...''))))"
    by (rule response_abstracts)
next
  assume "map_of pd (lit ''abstract'') = Some (PStr s)"
  then show "\<exists>entry. format_paper (PDict a pd) = Inr entry \<and>
         py_get entry (lit ''abstract'') PNone = Inr (PStr (take 300 s @ lit ''...''))"
    by (rule format_paper_total)
next
  assume "map_of pd (lit ''abstract'') = None"
  then show "\<exists>entry. format_paper (PDict a pd) = Inr entry \<and>
         py_get entry (lit ''abstract'') PNone = Inr (PStr (lit ''...''))"
    by (rule format_paper_total)
next
  assume "50 \<le> length (abstract request) \<and>
    SearchRequest.mode request \<in> {lit ''arxiv'', lit ''local''} \<and>
    get_orchestrator e st (SearchRequest.mode request) = (Inr h0, st0) \<and>
    run_pipeline e h0 (abstract request) = Inr (PDict r rd) \<and> rd \<noteq> [] \<and>
    map_of rd (lit ''top_5_papers'') = Some (PList papers) \<and>
    (\<forall>p\<in>set (take 5 papers). \<exists>a pd. p = PDict a pd \<and>
       (map_of pd (lit ''abstract'') = None \<or>
        (\<exists>s. map_of pd (lit ''abstract'') = Some (PStr s))))"
  then show "\<exists>response st' entries.
         search_papers e st request = (Inr response, st') \<and>
         py_get response (lit ''top_5_papers'') PNone = Inr (PList entries) \<and>
         length entries = min 5 (length papers) \<and>
         (\<forall>i<length entries. format_paper (papers ! i) = Inr (entries ! i))"
    using search_papers_total [of request e st h0 st0 r rd papers] by blast
qed

theorem abstract_truncation_witness:
  "(\<exists>response st'.
      search_papers long_env initial_state example_request = (Inr response, st') \<and>
      (\<exists>h st1 results ps entries.
           get_orchestrator long_env initial_state (SearchRequest.mode example_request) = (Inr h, st1) \<and>
           run_pipeline long_env h (abstract example_request) = Inr results \<and>
           first_five_papers results = Inr ps \<and>
           py_get response (lit ''top_5_papers'') PNone = Inr (PList entries) \<and>
           length entries = length ps \<and>
           (\<forall>i<length ps. \<exists>a pd. ps ! i = PDict a pd \<and>
              (case map_of pd (lit ''abstract'') of
                 None \<Rightarrow> py_get (entries ! i) (lit ''abstract'') PNone = Inr (PStr (lit ''...''))
               | Some a \<Rightarrow> \<exists>s. a = PStr s \<and>
                   py_get (entries ! i) (lit ''abstract'') PNone
                     = Inr (PStr (take 300 s @ lit ''...'')))))) \<and>
   (\<exists>entry. format_paper long_paper = Inr entry \<and>
      py_get entry (lit ''abstract'') PNone = Inr (PStr (replicate 300 120 @ lit ''...''))) \<and>
   (\<exists>entry. format_paper example_paper2 = Inr entry \<and>
      py_get entry (lit ''abstract'') PNone = Inr (PStr (lit ''...'')))"
proof (intro conjI)
  have "\<exists>response st' entries.
         search_papers long_env initial_state example_request = (Inr response, st') \<and>
         py_get response (lit ''top_5_papers'') PNone = Inr (PList entries) \<and>
         length entries = min 5 (length [long_paper, example_paper1, example_paper2]) \<and>
         (\<forall>i<length entries.
            format_paper ([long_paper, example_paper1, example_paper2] ! i) = Inr (entries ! i))"
    using abstract_truncation
      [where e = long_env and st = initial_state and request = example_request
         and ?h0.0 = "Handle (lit ''arxiv'') 0"
         and ?st0.0 = "initial_state\<lparr>orchestrators := (orchestrators initial_state)
                       (lit ''arxiv'' \<mapsto> Some (Handle (lit ''arxiv'') 0)),
                    trace := [Constructed (Handle (lit ''arxiv'') 0)]\<rparr>"
         and r = "Obj 6"
         and rd = "[(lit ''top_5_papers'', PList [long_paper, example_paper1, example_paper2])]"
         and papers = "[long_paper, example_paper1, example_paper2]"]
    by (simp add: long_get_orchestrator example_request_fields)
      (simp add: long_env_def long_results_def long_paper_def example_paper1_def
        example_paper2_def)
  then obtain response st' where
    ok: "search_papers long_env initial_state example_request = (Inr response, st')"
    by blast
  from abstract_truncation
      [where e = long_env and st = initial_state and request = example_request
         and response = response and st' = st'] ok
  have "\<exists>h st1 results ps entries.
           get_orchestrator long_env initial_state (SearchRequest.mode example_request) = (Inr h, st1) \<and>
           run_pipeline long_env h (abstract example_request) = Inr results \<and>
           first_five_papers results = Inr ps \<and>
           py_get response (lit ''top_5_papers'') PNone = Inr (PList entries) \<and>
           length entries = length ps \<and>
           (\<forall>i<length ps. \<exists>a pd. ps ! i = PDict a pd \<and>
              (case map_of pd (lit ''abstract'') of
                 None \<Rightarrow> py_get (entries ! i) (lit ''abstract'') PNone = Inr (PStr (lit ''...''))
               | Some a \<Rightarrow> \<exists>s. a = PStr s \<and>
                   py_get (entries ! i) (lit ''abstract'') PNone
                     = Inr (PStr (take 300 s @ lit ''...''))))"
    by blast
  with ok show "\<exists>response st'.
      search_papers long_env initial_state example_request = (Inr response, st') \<and>
      (\<exists>h st1 results ps entries.
           get_orchestrator long_env initial_state (SearchRequest.mode example_request) = (Inr h, st1) \<and>
           run_pipeline long_env h (abstract example_request) = Inr results \<and>
           first_five_papers results = Inr ps \<and>
           py_get response (lit ''top_5_papers'') PNone = Inr (PList entries) \<and>
           length entries = length ps \<and>
           (\<forall>i<length ps. \<exists>a pd. ps ! i = PDict a pd \<and>
              (case map_of pd (lit ''abstract'') of
                 None \<Rightarrow> py_get (entries ! i) (lit ''abstract'') PNone = Inr (PStr (lit ''...''))
               | Some a \<Rightarrow> \<exists>s. a = PStr s \<and>
                   py_get (entries ! i) (lit ''abstract'') PNone
                     = Inr (PStr (take 300 s @ lit ''...'')))))"
    by blast
next
  show "\<exists>entry. format_paper long_paper = Inr entry \<and>
      py_get entry (lit ''abstract'') PNone = Inr (PStr (replicate 300 120 @ lit ''...''))"
    using abstract_truncation
      [where pd = "[(lit ''rank'', PInt 1), (lit ''abstract'', PStr (replicate 301 120))]"
         and s = "replicate 301 120" and a = "Obj 5"]
    by (simp add: long_paper_def)
next
  show "\<exists>entry. format_paper example_paper2 = Inr entry \<and>
      py_get entry (lit ''abstract'') PNone = Inr (PStr (lit ''...''))"
    using abstract_truncation
      [where pd = "[(lit ''rank'', PInt 2), (lit ''title'', PStr (lit ''B''))]" and a = "Obj 2"]
    by (simp add: example_paper2_def)
qed

section \<open>The session a successful search stores\<close>

text \<open>
  C4, as the code has it: when a search succeeds, the request had an abstract of at least
  50 code points and one of the two modes, and the pipeline returned a result. The
  session store afterwards is the store before with that result stored under the
  identifier made of the mode, an underscore and the current time as
  \<open>YYYYMMDD_HHMMSS\<close>; nothing else in the store changes. If the identifier was not in
  use, this is exactly one new session. The response carries the identifier, and its
  list of papers has at most 5 entries and at most as many as the pipeline returned.
\<close>

theorem search_stores_one_session:
  assumes "search_papers e st request = (Inr response, st')"
  shows "\<exists>h st1 results papers n entries sid.
           50 \<le> length (abstract request) \<and>
           SearchRequest.mode request \<in> {lit ''arxiv'', lit ''local''} \<and>
           get_orchestrator e st (SearchRequest.mode request) = (Inr h, st1) \<and>
           run_pipeline e h (abstract request) = Inr results \<and>
           sid = SearchRequest.mode request @ lit ''_'' @ strftime (now e) \<and>
           timestamp_format (strftime (now e)) \<and>
           (valid_datetime (now e) \<longrightarrow>
              parse_timestamp (strftime (now e)) =
                \<lparr>year = year (now e), month = month (now e), day = day (now e),
                 hour = hour (now e), minute = minute (now e), second = second (now e)\<rparr>) \<and>
           sessions st' = (sessions st)(sid \<mapsto> results) \<and>
           (sessions st sid = None \<longrightarrow> dom (sessions st') - dom (sessions st) = {sid}) \<and>
           py_get response (lit ''session_id'') PNone = Inr (PStr sid) \<and>
           py_get results (lit ''top_5_papers'') (PList []) = Inr papers \<and>
           py_len papers = Inr n \<and>
           py_get response (lit ''top_5_papers'') PNone = Inr (PList entries) \<and>
           length entries \<le> 5 \<and> length entries \<le> n"
proof -
  let ?sid = "SearchRequest.mode request @ lit ''_'' @ strftime (now e)"
  from assms obtain h st1 results where
    len: "50 \<le> length (abstract request)"
    and md: "SearchRequest.mode request \<in> {lit ''arxiv'', lit ''local''}"
    and g: "get_orchestrator e st (SearchRequest.mode request) = (Inr h, st1)"
    and p: "run_pipeline e h (abstract request) = Inr results"
    and st': "st' = st1\<lparr>trace := trace st1 @ [RanPipeline h (abstract request)],
               sessions := (sessions st1)(?sid \<mapsto> results)\<rparr>"
    and r: "search_response ?sid request results = Inr response"
    by (rule search_papers_success)
  from search_response_success [OF r] obtain ps entries where
    f: "first_five_papers results = Inr ps" and fp: "format_papers ps = Inr entries"
    and t: "py_get response (lit ''top_5_papers'') PNone = Inr (PList entries)"
    and i: "py_get response (lit ''session_id'') PNone = Inr (PStr ?sid)"
    by blast
  from format_papers_success [OF fp] have le: "length entries = length ps"
    by simp
  from first_five_papers_count [OF f] obtain papers n where
    pp: "py_get results (lit ''top_5_papers'') (PList []) = Inr papers"
    and pl: "py_len papers = Inr n" and b: "length ps \<le> 5" "length ps \<le> n"
    by blast
  from g have "sessions st1 = sessions st"
    by (rule get_orchestrator_sessions_eq)
  with st' have s: "sessions st' = (sessions st)(?sid \<mapsto> results)"
    by simp
  then have d: "sessions st ?sid = None \<longrightarrow> dom (sessions st') - dom (sessions st) = {?sid}"
    by auto
  have v: "valid_datetime (now e) \<longrightarrow>
              parse_timestamp (strftime (now e)) =
                \<lparr>year = year (now e), month = month (now e), day = day (now e),
                 hour = hour (now e), minute = minute (now e), second = second (now e)\<rparr>"
    by (simp add: parse_timestamp_strftime)
  from b le have bb: "length entries \<le> 5" "length entries \<le> n" by simp_all
  show ?thesis
    apply (rule exI [of _ h])
    apply (rule exI [of _ st1])
    apply (rule exI [of _ results])
    apply (rule exI [of _ papers])
    apply (rule exI [of _ n])
    apply (rule exI [of _ entries])
    apply (rule exI [of _ ?sid])
    apply (intro conjI)
                  apply (rule len)
                 apply (rule md)
                apply (rule g)
               apply (rule p)
              apply (rule HOL.refl)
             apply (rule timestamp_format_strftime)
            apply (rule v)
           apply (rule s)
          apply (rule d)
         apply (rule i)
        apply (rule pp)
       apply (rule pl)
      apply (rule t)
     apply (rule bb)
    apply (rule bb)
    done
qed

theorem search_stores_one_session_witness:
  "search_papers example_env initial_state example_request = (Inr example_response, example_state) \<and>
   (\<exists>h st1 results papers n entries sid.
           50 \<le> length (abstract example_request) \<and>
           SearchRequest.mode example_request \<in> {lit ''arxiv'', lit ''local''} \<and>
           get_orchestrator example_env initial_state (SearchRequest.mode example_request)
             = (Inr h, st1) \<and>
           run_pipeline example_env h (abstract example_request) = Inr results \<and>
           sid = SearchRequest.mode example_request @ lit ''_'' @ strftime (now example_env) \<and>
           timestamp_format (strftime (now example_env)) \<and>
           (valid_datetime (now example_env) \<longrightarrow>
              parse_timestamp (strftime (now example_env)) =
                \<lparr>year = year (now example_env), month = month (now example_env),
                 day = day (now example_env), hour = hour (now example_env),
                 minute = minute (now example_env), second = second (now example_env)\<rparr>) \<and>
           sessions example_state = (sessions initial_state)(sid \<mapsto> results) \<and>
           (sessions initial_state sid = None \<longrightarrow>
              dom (sessions example_state) - dom (sessions initial_state) = {sid}) \<and>
           py_get example_response (lit ''session_id'') PNone = Inr (PStr sid) \<and>
           py_get results (lit ''top_5_papers'') (PList []) = Inr papers \<and>
           py_len papers = Inr n \<and>
           py_get example_response (lit ''top_5_papers'') PNone = Inr (PList entries) \<and>
           length entries \<le> 5 \<and> length entries \<le> n) \<and>
   valid_datetime (now example_env) \<and>
   sessions initial_state (lit ''arxiv_20240309_140507'') = None"
proof -
  have "valid_datetime (now example_env)"
    by (simp add: valid_datetime_def example_env_def)
  moreover have "sessions initial_state (lit ''arxiv_20240309_140507'') = None"
    by (simp add: initial_state_def)
  ultimately show ?thesis
    using example_search_full search_stores_one_session [OF example_search_full]
    by (intro conjI)
qed

text \<open>
  C4 as it is stated says that every successful search adds exactly one new session.
  Two searches with the same mode within the same second get the same identifier: the
  second one succeeds and leaves the store with the sessions it had.
\<close>

theorem same_second_search_adds_no_session:
  "\<not> isl (fst (search_papers example_env example_state example_request)) \<and>
   dom (sessions (snd (search_papers example_env example_state example_request)))
     = dom (sessions example_state)"
  by (simp add: example_search_again example_state_again_def)

section \<open>What a successful summary request has done\<close>


















lemma alias_search:
  "snd (search_papers alias_env initial_state example_request) = alias_state"
  by (simp add: search_papers_def search_papers_try_def get_orchestrator_def initial_state_def
      alias_env_def example_env_def example_request_def alias_state_def alias_results_def
      example_paper1_def strftime_example lit_append Let_def)

lemma reachable_alias_state: "reachable alias_state"
  unfolding reachable_def
  using steps.search [OF steps.refl, of initial_state alias_env example_request]
  by (simp only: alias_search)




section \<open>The frame of a summary request\<close>




end
